theory Spec2Isabelle
  imports Main "HOL-Library.List_Lexorder" "HOL-Library.Char_ord"
begin

section \<open>Shared domain types\<close>

text \<open>
  The role of a user is one of four string literals in the source
  (\<^verbatim>\<open>'Super Admin'\<close>, \<^verbatim>\<open>'Team Leader'\<close>, \<^verbatim>\<open>'Employee'\<close>, \<^verbatim>\<open>'Guest'\<close>);
  every test on it is an equality with one of them.
\<close>

datatype UserRole = Super_Admin | Team_Leader | Employee | Guest

record NotificationPreferences =
  onAssignment :: bool
  onComment :: bool
  onStatusChange :: bool
  onDueDateChange :: bool

text \<open>Optional fields (\<^verbatim>\<open>teamId?\<close>, \<^verbatim>\<open>disabled?\<close>, ...) are options; \<open>None\<close> is \<^verbatim>\<open>undefined\<close>.\<close>

record User =
  u_id :: string
  u_name :: string
  u_email :: string
  u_password :: string
  u_avatarUrl :: string
  u_role :: UserRole
  u_teamId :: "string option"
  u_projectId :: "string option"
  u_disabled :: "bool option"
  u_notificationPreferences :: "NotificationPreferences option"

record Project =
  p_id :: string
  p_name :: string
  p_teamId :: string
  p_budget :: int
  p_description :: string
  p_startDate :: string
  p_endDate :: string

datatype TransactionType = Income | Expense

record FinancialTransaction =
  f_id :: string
  f_type :: TransactionType
  f_date :: string
  f_source :: string
  f_description :: string
  f_amount :: int
  f_projectId :: string

section \<open>The in-memory store (\<^verbatim>\<open>let db = {...}\<close> and \<^verbatim>\<open>export const api\<close>)\<close>

record DbTask =
  t_id :: string
  t_title :: string
  t_description :: string
  t_columnId :: string
  t_startDate :: string
  t_endDate :: string
  t_plannedCost :: int
  t_actualCost :: int
  t_baselineStartDate :: "string option"
  t_baselineEndDate :: "string option"
  t_projectId :: string
  t_isMilestone :: "bool option"
  t_parentId :: "string option"

record DbTeam =
  tm_id :: string
  tm_name :: string
  tm_leaderId :: "string option"

record DbComment =
  c_id :: string
  c_userId :: string
  c_text :: string
  c_timestamp :: string
  c_taskId :: string
  c_parentId :: "string option"

record TaskAssignee =
  ta_task_id :: string
  ta_user_id :: string

record TaskDependency =
  td_source_task_id :: string
  td_target_task_id :: string

text \<open>
  The view types sent to the client. A \<^verbatim>\<open>Comment\<close> embeds its author, which
  \<^verbatim>\<open>db.users.find\<close> may fail to find (\<open>None\<close>). A \<^verbatim>\<open>Task\<close> is a \<^verbatim>\<open>DbTask\<close> row
  spread together with the three assembled relations.
\<close>

record Comment =
  cm_id :: string
  cm_text :: string
  cm_timestamp :: string
  cm_user :: "User option"
  cm_parentId :: "string option"

record Task =
  core :: DbTask
  assigneeIds :: "string list"
  dependencies :: "string list"
  comments :: "Comment list"

record Db =
  users :: "User list"
  teams :: "DbTeam list"
  projects :: "Project list"
  tasks :: "DbTask list"
  financial_entries :: "FinancialTransaction list"
  db_comments :: "DbComment list"
  task_assignees :: "TaskAssignee list"
  task_dependencies :: "TaskDependency list"

text \<open>Every \<^verbatim>\<open>throw new Error(...)\<close> of the in-memory API, by its message.\<close>

datatype api_error =
    Unauthorized
  | Project_not_found
  | Task_not_found
  | User_not_found
  | Team_not_found
  | Email_exists

text \<open>Decimal rendering of a number inside a template literal (\<^verbatim>\<open>`u-reg-${Date.now()}`\<close>).\<close>

fun digits :: "nat \<Rightarrow> string" where
  "digits n = (if n < 10 then [char_of (48 + n)]
               else digits (n div 10) @ [char_of (48 + n mod 10)])"

declare digits.simps [simp del]

subsection \<open>\<^verbatim>\<open>_getTaskViewModel\<close>\<close>

definition mem_getTaskViewModel :: "Db \<Rightarrow> DbTask \<Rightarrow> Task" where
  "mem_getTaskViewModel db dbTask =
     (let assignees = map ta_user_id
            (filter (\<lambda>a. ta_task_id a = t_id dbTask) (task_assignees db));
          deps = map td_source_task_id
            (filter (\<lambda>d. td_target_task_id d = t_id dbTask) (task_dependencies db));
          cs = map (\<lambda>c. \<lparr> cm_id = c_id c, cm_text = c_text c, cm_timestamp = c_timestamp c,
                           cm_user = find (\<lambda>u. u_id u = c_userId c) (users db),
                           cm_parentId = c_parentId c \<rparr>)
            (filter (\<lambda>c. c_taskId c = t_id dbTask) (db_comments db))
      in \<lparr> core = dbTask, assigneeIds = assignees, dependencies = deps, comments = cs \<rparr>)"

subsection \<open>\<^verbatim>\<open>api.register\<close>\<close>

record RegisterData =
  rd_fullName :: string
  rd_email :: string
  rd_password :: string
  rd_companyName :: string

record OrganizationSettings =
  os_name :: string
  os_logoUrl :: string

definition allPreferences :: NotificationPreferences where
  "allPreferences = \<lparr> onAssignment = True, onComment = True,
                       onStatusChange = True, onDueDateChange = True \<rparr>"

text \<open>
  \<open>toLowerCase\<close> is JavaScript's \<^verbatim>\<open>String.prototype.toLowerCase\<close> and \<open>now\<close> the value of
  \<^verbatim>\<open>Date.now()\<close>; both come from the runtime and are parameters here. The function
  returns the store after the call together with what the promise settles to.
\<close>

definition api_register ::
  "(string \<Rightarrow> string) \<Rightarrow> nat \<Rightarrow> RegisterData \<Rightarrow> Db
     \<Rightarrow> Db \<times> (api_error + User \<times> OrganizationSettings)" where
  "api_register toLowerCase now data db =
     (if list_ex (\<lambda>u. toLowerCase (u_email u) = toLowerCase (rd_email data)) (users db)
      then (db, Inl Email_exists)
      else
        let newAdmin = \<lparr> u_id = ''u-reg-'' @ digits now,
                         u_name = rd_fullName data,
                         u_email = rd_email data,
                         u_password = rd_password data,
                         u_avatarUrl = ''https://i.pravatar.cc/150?u='' @ rd_email data,
                         u_role = Super_Admin,
                         u_teamId = None, u_projectId = None, u_disabled = None,
                         u_notificationPreferences = Some allPreferences \<rparr>;
            db' = \<lparr> users = [newAdmin], teams = [], projects = [], tasks = [],
                    financial_entries = [], db_comments = [], task_assignees = [],
                    task_dependencies = [] \<rparr>;
            organizationSettings = \<lparr> os_name = rd_companyName data, os_logoUrl = '''' \<rparr>
        in (db', Inr (newAdmin, organizationSettings)))"

subsection \<open>\<^verbatim>\<open>api.getInitialData\<close>\<close>

record InitialData =
  id_users :: "User list"
  id_teams :: "DbTeam list"
  id_projects :: "Project list"
  id_tasks :: "Task list"
  id_financials :: "FinancialTransaction list"

text \<open>
  The function takes no caller. \<^verbatim>\<open>JSON.parse(JSON.stringify(...))\<close> is a deep copy, the
  identity on values.
\<close>

definition api_getInitialData :: "Db \<Rightarrow> InitialData" where
  "api_getInitialData db =
     (let tasksForFrontend = map (\<lambda>t. mem_getTaskViewModel db t) (tasks db)
      in \<lparr> id_users = users db, id_teams = teams db, id_projects = projects db,
           id_tasks = tasksForFrontend, id_financials = financial_entries db \<rparr>)"

subsection \<open>\<^verbatim>\<open>api.updateTask\<close>\<close>

text \<open>\<^verbatim>\<open>Array.prototype.findIndex\<close>; \<open>None\<close> is the result \<^verbatim>\<open>-1\<close>.\<close>

fun findIndex :: "('a \<Rightarrow> bool) \<Rightarrow> 'a list \<Rightarrow> nat option" where
  "findIndex P [] = None"
| "findIndex P (x # xs) =
     (if P x then Some 0 else map_option Suc (findIndex P xs))"

definition api_updateTask :: "Task \<Rightarrow> User \<Rightarrow> Db \<Rightarrow> Db \<times> (api_error + Task)" where
  "api_updateTask updatedTask currentUser db =
     (case find (\<lambda>p. p_id p = t_projectId (core updatedTask)) (projects db) of
        None \<Rightarrow> (db, Inl Project_not_found)
      | Some project \<Rightarrow>
          let isSuperAdmin = (u_role currentUser = Super_Admin);
              isTeamLeader = (u_role currentUser = Team_Leader
                              \<and> u_teamId currentUser = Some (p_teamId project));
              isAssignee = (u_id currentUser \<in> set (assigneeIds updatedTask))
          in if \<not> isSuperAdmin \<and> \<not> isTeamLeader \<and> \<not> isAssignee
             then (db, Inl Unauthorized)
             else
               (case findIndex (\<lambda>t. t_id t = t_id (core updatedTask)) (tasks db) of
                  None \<Rightarrow> (db, Inl Task_not_found)
                | Some taskIndex \<Rightarrow>
                    let coreTask = core updatedTask;
                        db1 = db \<lparr> tasks := (tasks db)[taskIndex := coreTask] \<rparr>;
                        db2 = db1 \<lparr> task_assignees :=
                                filter (\<lambda>a. ta_task_id a \<noteq> t_id coreTask) (task_assignees db1) \<rparr>;
                        db3 = db2 \<lparr> task_assignees := task_assignees db2 @
                                map (\<lambda>uid. \<lparr> ta_task_id = t_id coreTask, ta_user_id = uid \<rparr>)
                                    (assigneeIds updatedTask) \<rparr>
                    in (db3, Inr (mem_getTaskViewModel db3 coreTask))))"

subsection \<open>\<^verbatim>\<open>api.addFinancialTransaction\<close>\<close>

text \<open>\<^verbatim>\<open>Omit<FinancialTransaction, 'id'>\<close>\<close>

record TransactionData =
  fd_type :: TransactionType
  fd_date :: string
  fd_source :: string
  fd_description :: string
  fd_amount :: int
  fd_projectId :: string

definition api_addFinancialTransaction ::
  "nat \<Rightarrow> TransactionData \<Rightarrow> User \<Rightarrow> Db \<Rightarrow> Db \<times> (api_error + FinancialTransaction)" where
  "api_addFinancialTransaction now transactionData currentUser db =
     (if u_role currentUser \<noteq> Super_Admin \<and> u_role currentUser \<noteq> Team_Leader
      then (db, Inl Unauthorized)
      else
        let newTransaction = \<lparr> f_id = ''f-'' @ digits now,
                               f_type = fd_type transactionData,
                               f_date = fd_date transactionData,
                               f_source = fd_source transactionData,
                               f_description = fd_description transactionData,
                               f_amount = fd_amount transactionData,
                               f_projectId = fd_projectId transactionData \<rparr>
        in (db \<lparr> financial_entries := newTransaction # financial_entries db \<rparr>,
            Inr newTransaction))"

subsection \<open>\<^verbatim>\<open>api.deleteUser\<close> and \<^verbatim>\<open>api.revokeGuest\<close>\<close>

definition api_deleteUser :: "string \<Rightarrow> User \<Rightarrow> Db \<Rightarrow> Db \<times> (api_error + User)" where
  "api_deleteUser userId currentUser db =
     (if u_role currentUser \<noteq> Super_Admin then (db, Inl Unauthorized)
      else
        (case findIndex (\<lambda>u. u_id u = userId) (users db) of
           None \<Rightarrow> (db, Inl User_not_found)
         | Some userIndex \<Rightarrow>
             let disabledUser = (users db ! userIndex) \<lparr> u_disabled := Some True \<rparr>
             in (db \<lparr> users := (users db)[userIndex := disabledUser] \<rparr>, Inr disabledUser)))"

definition api_revokeGuest :: "string \<Rightarrow> User \<Rightarrow> Db \<Rightarrow> Db \<times> (api_error + string)" where
  "api_revokeGuest guestId currentUser db =
     (if u_role currentUser \<noteq> Super_Admin then (db, Inl Unauthorized)
      else (db \<lparr> users := filter (\<lambda>u. u_id u \<noteq> guestId) (users db) \<rparr>, Inr guestId))"

subsection \<open>\<^verbatim>\<open>api.deleteTeam\<close>\<close>

definition api_deleteTeam ::
  "string \<Rightarrow> User \<Rightarrow> Db \<Rightarrow> Db \<times> (api_error + string \<times> User list)" where
  "api_deleteTeam teamId currentUser db =
     (if u_role currentUser \<noteq> Super_Admin then (db, Inl Unauthorized)
      else
        let db1 = db \<lparr> teams := filter (\<lambda>t. tm_id t \<noteq> teamId) (teams db) \<rparr>;
            updatedUsers = map (\<lambda>u. u \<lparr> u_teamId := None \<rparr>)
                             (filter (\<lambda>u. u_teamId u = Some teamId) (users db1));
            db2 = db1 \<lparr> users := map (\<lambda>u. if u_teamId u = Some teamId
                                           then u \<lparr> u_teamId := None \<rparr> else u) (users db1) \<rparr>
        in (db2, Inr (teamId, updatedUsers)))"

section \<open>The client's notification state (\<^verbatim>\<open>App.tsx\<close>)\<close>

record Notification =
  n_id :: string
  n_userId :: string
  n_text :: string
  n_taskId :: string
  n_timestamp :: string
  n_read :: bool

text \<open>\<^verbatim>\<open>Omit<Notification, 'id' | 'timestamp' | 'read'>\<close>\<close>

record NewNotification =
  nn_userId :: string
  nn_text :: string
  nn_taskId :: string

text \<open>\<^verbatim>\<open>keyof NotificationPreferences\<close> and the indexing \<^verbatim>\<open>notificationPreferences[type]\<close>.\<close>

datatype PreferenceKey = OnAssignment | OnComment | OnStatusChange | OnDueDateChange

fun preference :: "NotificationPreferences \<Rightarrow> PreferenceKey \<Rightarrow> bool" where
  "preference prefs OnAssignment = onAssignment prefs"
| "preference prefs OnComment = onComment prefs"
| "preference prefs OnStatusChange = onStatusChange prefs"
| "preference prefs OnDueDateChange = onDueDateChange prefs"

definition getTeamLeaderForTask :: "Project list \<Rightarrow> User list \<Rightarrow> Task \<Rightarrow> User option" where
  "getTeamLeaderForTask projs us task =
     (case find (\<lambda>p. p_id p = t_projectId (core task)) projs of
        None \<Rightarrow> None
      | Some project \<Rightarrow>
          find (\<lambda>u. u_role u = Team_Leader \<and> u_teamId u = Some (p_teamId project)) us)"

definition hasPermission :: "User list \<Rightarrow> PreferenceKey \<Rightarrow> string \<Rightarrow> bool" where
  "hasPermission us type userId =
     (case find (\<lambda>u. u_id u = userId) us of
        None \<Rightarrow> True
      | Some user \<Rightarrow>
          (case u_notificationPreferences user of
             None \<Rightarrow> True
           | Some prefs \<Rightarrow> preference prefs type \<or> u_role user = Guest))"

text \<open>
  The state updater passed to \<^verbatim>\<open>setNotifications\<close>, applied to the previous list \<open>prev\<close>.
  \<open>now\<close> is \<^verbatim>\<open>new Date().toISOString()\<close>; \<open>mkId i\<close> is the identifier
  \<^verbatim>\<open>`notif-${Date.now()}-${Math.random()}`\<close> drawn for the \<open>i\<close>-th candidate.
\<close>

definition addNotification ::
  "User list \<Rightarrow> string \<Rightarrow> (nat \<Rightarrow> string) \<Rightarrow> NewNotification list \<Rightarrow> PreferenceKey
     \<Rightarrow> Notification list \<Rightarrow> Notification list" where
  "addNotification us now mkId newNotifications type prev =
     (let stamped = map (\<lambda>(i, n). \<lparr> n_id = mkId i, n_userId = nn_userId n, n_text = nn_text n,
                                    n_taskId = nn_taskId n, n_timestamp = now, n_read = False \<rparr>)
                        (enumerate 0 newNotifications);
          notificationsToAdd =
            filter (\<lambda>n. hasPermission us type (n_userId n)
                        \<and> \<not> list_ex (\<lambda>p. n_userId p = n_userId n \<and> n_taskId p = n_taskId n
                                            \<and> n_text p = n_text n \<and> \<not> n_read p) prev)
                   stamped
      in notificationsToAdd @ prev)"

text \<open>The two literal parts of the overdue message, as the UTF-8 bytes of the source text.\<close>

definition overduePrefix :: string where
  "overduePrefix =
     [CHR 0xD7, CHR 0xA9, CHR 0xD7, CHR 0x99, CHR 0xD7, CHR 0x9E, CHR 0xD7, CHR 0x95, CHR 0x20,
      CHR 0xD7, CHR 0x9C, CHR 0xD7, CHR 0x91, CHR 0x2C, CHR 0x20, CHR 0xD7, CHR 0x94, CHR 0xD7,
      CHR 0x9E, CHR 0xD7, CHR 0xA9, CHR 0xD7, CHR 0x99, CHR 0xD7, CHR 0x9E, CHR 0xD7, CHR 0x94,
      CHR 0x20, CHR 0x22]"

definition overdueSuffix :: string where
  "overdueSuffix =
     [CHR 0x22, CHR 0x20, CHR 0xD7, CHR 0xA2, CHR 0xD7, CHR 0x91, CHR 0xD7, CHR 0xA8, CHR 0xD7,
      CHR 0x94, CHR 0x20, CHR 0xD7, CHR 0x90, CHR 0xD7, CHR 0xAA, CHR 0x20, CHR 0xD7, CHR 0xAA,
      CHR 0xD7, CHR 0x90, CHR 0xD7, CHR 0xA8, CHR 0xD7, CHR 0x99, CHR 0xD7, CHR 0x9A, CHR 0x20,
      CHR 0xD7, CHR 0x94, CHR 0xD7, CHR 0x99, CHR 0xD7, CHR 0xA2, CHR 0xD7, CHR 0x93, CHR 0x2E]"

text \<open>
  The body of the overdue effect. \<open>parseDate s\<close> is the time value of \<^verbatim>\<open>new Date(s)\<close>
  (\<open>None\<close> for an invalid date, which compares false with everything) and \<open>today\<close> the
  time value of local midnight.
\<close>

definition overdueNotifications ::
  "(string \<Rightarrow> int option) \<Rightarrow> int \<Rightarrow> Project list \<Rightarrow> User list \<Rightarrow> Task list
     \<Rightarrow> NewNotification list" where
  "overdueNotifications parseDate today projs us ts =
     concat (map (\<lambda>task.
        (case (parseDate (t_endDate (core task)), getTeamLeaderForTask projs us task) of
           (Some endDate, Some teamLeader) \<Rightarrow>
             if endDate < today \<and> t_columnId (core task) \<noteq> ''col-done''
             then [\<lparr> nn_userId = u_id teamLeader,
                     nn_text = overduePrefix @ t_title (core task) @ overdueSuffix,
                     nn_taskId = t_id (core task) \<rparr>]
             else []
         | _ \<Rightarrow> [])) ts)"

definition overdueSweep ::
  "(string \<Rightarrow> int option) \<Rightarrow> int \<Rightarrow> string \<Rightarrow> (nat \<Rightarrow> string) \<Rightarrow> Project list \<Rightarrow> User list
     \<Rightarrow> Task list \<Rightarrow> Notification list \<Rightarrow> Notification list" where
  "overdueSweep parseDate today now mkId projs us ts prev =
     (let overdue = overdueNotifications parseDate today projs us ts
      in if overdue \<noteq> [] then addNotification us now mkId overdue OnStatusChange prev
         else prev)"

section \<open>The relational store (the PostgreSQL tables behind the controllers)\<close>

text \<open>
  One record per table, one field per column the controllers read or write. Primary keys
  and foreign keys are declared outside the controllers and are not assumed. Dates travel
  as ISO text; the comment timestamp is the database's own clock value.
\<close>

record users_row =
  us_user_id :: string
  us_full_name :: string
  us_email :: string
  us_password_hash :: string
  us_role :: UserRole
  us_team_id :: "string option"
  us_project_id :: "string option"
  us_disabled :: bool
  us_avatar_url :: "string option"
  us_notification_preferences :: "NotificationPreferences option"

record teams_row =
  te_team_id :: string
  te_team_name :: string
  te_team_leader_id :: "string option"

record projects_row =
  pj_project_id :: string
  pj_title :: string
  pj_description :: string
  pj_team_id :: string
  pj_budget :: int
  pj_start_date :: string
  pj_end_date :: string

record tasks_row =
  tk_task_id :: string
  tk_title :: string
  tk_description :: string
  tk_columnId :: string
  tk_start_date :: string
  tk_end_date :: string
  tk_planned_cost :: int
  tk_actual_cost :: int
  tk_baseline_start_date :: "string option"
  tk_baseline_end_date :: "string option"
  tk_project_id :: string
  tk_is_milestone :: bool
  tk_parent_id :: "string option"

record task_assignees_row =
  as_task_id :: string
  as_user_id :: string

record task_dependencies_row =
  dp_source_task_id :: string
  dp_target_task_id :: string

record comments_row =
  co_comment_id :: string
  co_content :: string
  co_timestamp :: int
  co_parent_id :: "string option"
  co_task_id :: string
  co_user_id :: string

record financial_entries_row =
  fe_entry_id :: string
  fe_entry_type :: string
  fe_amount :: int
  fe_description :: "string option"
  fe_entry_date :: string
  fe_project_id :: string
  fe_source :: string

record Pg =
  pg_users :: "users_row list"
  pg_teams :: "teams_row list"
  pg_projects :: "projects_row list"
  pg_tasks :: "tasks_row list"
  pg_task_assignees :: "task_assignees_row list"
  pg_task_dependencies :: "task_dependencies_row list"
  pg_comments :: "comments_row list"
  pg_financial_entries :: "financial_entries_row list"

text \<open>\<^verbatim>\<open>req.user\<close>: the decoded token \<^verbatim>\<open>{ id, role, teamId }\<close>.\<close>

record AuthUser =
  au_id :: string
  au_role :: UserRole
  au_teamId :: "string option"

text \<open>What a handler sends: the status code and, where there is one, the JSON body.\<close>

datatype 'a response =
    Ok 'a
  | Created 'a
  | No_Content
  | Bad_Request
  | Not_Authorized
  | Forbidden
  | Not_Found
  | Server_Error

text \<open>
  A statement sent to the database, named by its kind and the table it is on. Any of them
  may throw; \<open>fault\<close>, an argument of every handler, is the statement that throws during
  the request, if one does. A handler that catches the exception inside a transaction
  sends \<^verbatim>\<open>ROLLBACK\<close>, which discards the working copy built since \<^verbatim>\<open>BEGIN\<close>.
\<close>

datatype stmt = BEGIN | COMMIT | SELECT string | UPDATE string | DELETE string | INSERT string

subsection \<open>Task assembly in \<^verbatim>\<open>tasks.controller.ts\<close>\<close>

record CommentAuthor =
  ca_id :: string
  ca_name :: string
  ca_avatarUrl :: "string option"
  ca_role :: UserRole
  ca_email :: string

record CommentView =
  cv_id :: string
  cv_text :: string
  cv_timestamp :: int
  cv_parentId :: "string option"
  cv_user :: CommentAuthor

record TaskView =
  tv_row :: tasks_row
  tv_assigneeIds :: "string list"
  tv_dependencies :: "string list"
  tv_comments :: "CommentView list"

text \<open>
  \<^verbatim>\<open>SELECT ... FROM comments c JOIN users u ON c.user_id = u.user_id WHERE <keep c.task_id>
  ORDER BY c.timestamp ASC\<close>: the inner join, the filter, then the sort.
\<close>

definition commentsQuery :: "Pg \<Rightarrow> (string \<Rightarrow> bool) \<Rightarrow> (comments_row \<times> users_row) list" where
  "commentsQuery db keep =
     sort_key (\<lambda>r. co_timestamp (fst r))
       (filter (\<lambda>r. keep (co_task_id (fst r)))
          (concat (map (\<lambda>c. map (\<lambda>u. (c, u))
                                 (filter (\<lambda>u. co_user_id c = us_user_id u) (pg_users db)))
                       (pg_comments db))))"

definition commentView :: "comments_row \<times> users_row \<Rightarrow> CommentView" where
  "commentView r =
     \<lparr> cv_id = co_comment_id (fst r), cv_text = co_content (fst r),
       cv_timestamp = co_timestamp (fst r), cv_parentId = co_parent_id (fst r),
       cv_user = \<lparr> ca_id = us_user_id (snd r), ca_name = us_full_name (snd r),
                   ca_avatarUrl = us_avatar_url (snd r), ca_role = us_role (snd r),
                   ca_email = us_email (snd r) \<rparr> \<rparr>"

text \<open>\<open>None\<close> is the \<^verbatim>\<open>null\<close> returned when no task row has the identifier.\<close>

definition getFullTaskViewModel :: "Pg \<Rightarrow> string \<Rightarrow> TaskView option" where
  "getFullTaskViewModel db taskId =
     (case filter (\<lambda>t. tk_task_id t = taskId) (pg_tasks db) of
        [] \<Rightarrow> None
      | task # _ \<Rightarrow>
          Some \<lparr> tv_row = task,
                 tv_assigneeIds = map as_user_id
                   (filter (\<lambda>a. as_task_id a = taskId) (pg_task_assignees db)),
                 tv_dependencies = map dp_source_task_id
                   (filter (\<lambda>d. dp_target_task_id d = taskId) (pg_task_dependencies db)),
                 tv_comments = map commentView (commentsQuery db (\<lambda>t. t = taskId)) \<rparr>)"

text \<open>The statements \<^verbatim>\<open>getFullTaskViewModel\<close> sends: the last three only after a row was found.\<close>

definition viewStatements :: "Pg \<Rightarrow> string \<Rightarrow> stmt list" where
  "viewStatements db taskId =
     SELECT ''tasks'' #
       (if filter (\<lambda>t. tk_task_id t = taskId) (pg_tasks db) = [] then []
        else [SELECT ''task_assignees'', SELECT ''task_dependencies'', SELECT ''comments''])"

definition throws :: "stmt option \<Rightarrow> stmt list \<Rightarrow> bool" where
  "throws fault sent = (case fault of None \<Rightarrow> False | Some s \<Rightarrow> s \<in> set sent)"

subsection \<open>\<^verbatim>\<open>updateTask\<close> in \<^verbatim>\<open>tasks.controller.ts\<close>\<close>

text \<open>The fields read from \<^verbatim>\<open>req.body\<close>; \<^verbatim>\<open>assigneeIds\<close> may be absent.\<close>

record TaskUpdate =
  tu_title :: string
  tu_description :: string
  tu_startDate :: string
  tu_endDate :: string
  tu_columnId :: string
  tu_assigneeIds :: "string list option"
  tu_baselineStartDate :: "string option"
  tu_baselineEndDate :: "string option"

definition updateTask ::
  "stmt option \<Rightarrow> string \<Rightarrow> TaskUpdate \<Rightarrow> Pg \<Rightarrow> Pg \<times> TaskView option response" where
  "updateTask fault taskId body db =
     (if fault = Some BEGIN then (db, Server_Error)
      else
        let w1 = db \<lparr> pg_tasks := map (\<lambda>t. if tk_task_id t = taskId
                        then t \<lparr> tk_title := tu_title body,
                                 tk_description := tu_description body,
                                 tk_start_date := tu_startDate body,
                                 tk_end_date := tu_endDate body,
                                 tk_columnId := tu_columnId body,
                                 tk_baseline_start_date := tu_baselineStartDate body,
                                 tk_baseline_end_date := tu_baselineEndDate body \<rparr>
                        else t) (pg_tasks db) \<rparr>
        in if fault = Some (UPDATE ''tasks'') then (db, Server_Error)
           else
             let w2 = w1 \<lparr> pg_task_assignees :=
                        filter (\<lambda>a. as_task_id a \<noteq> taskId) (pg_task_assignees w1) \<rparr>
             in if fault = Some (DELETE ''task_assignees'') then (db, Server_Error)
                else
                  let ids = (case tu_assigneeIds body of None \<Rightarrow> [] | Some l \<Rightarrow> l);
                      w3 = (if ids \<noteq> []
                            then w2 \<lparr> pg_task_assignees := pg_task_assignees w2 @
                                   map (\<lambda>uid. \<lparr> as_task_id = taskId, as_user_id = uid \<rparr>) ids \<rparr>
                            else w2)
                  in if ids \<noteq> [] \<and> fault = Some (INSERT ''task_assignees'')
                     then (db, Server_Error)
                     else if fault = Some COMMIT then (db, Server_Error)
                     else if throws fault (viewStatements w3 taskId) then (w3, Server_Error)
                     else (w3, Ok (getFullTaskViewModel w3 taskId)))"

subsection \<open>\<^verbatim>\<open>getInitialData\<close> in \<^verbatim>\<open>bootstrap.controller.ts\<close>\<close>

text \<open>
  The column lists of the two base queries, which drop some columns of their table.
  \<^verbatim>\<open>ORDER BY\<close> on a text column follows the collation of the database; the byte order of
  the strings stands for it here, and no statement below depends on the order of users or
  projects.
\<close>

record UserPublic =
  up_id :: string
  up_name :: string
  up_email :: string
  up_role :: UserRole
  up_teamId :: "string option"
  up_disabled :: bool
  up_avatarUrl :: "string option"
  up_projectId :: "string option"
  up_notificationPreferences :: "NotificationPreferences option"

record TeamPublic =
  tp_id :: string
  tp_name :: string

definition userPublic :: "users_row \<Rightarrow> UserPublic" where
  "userPublic u =
     \<lparr> up_id = us_user_id u, up_name = us_full_name u, up_email = us_email u,
       up_role = us_role u, up_teamId = us_team_id u, up_disabled = us_disabled u,
       up_avatarUrl = us_avatar_url u, up_projectId = us_project_id u,
       up_notificationPreferences = us_notification_preferences u \<rparr>"

definition teamPublic :: "teams_row \<Rightarrow> TeamPublic" where
  "teamPublic t = \<lparr> tp_id = te_team_id t, tp_name = te_team_name t \<rparr>"

text \<open>The helper at the head of the file: it filters the three row sets fetched once.\<close>

definition bootstrap_getFullTaskViewModel ::
  "tasks_row \<Rightarrow> task_assignees_row list \<Rightarrow> task_dependencies_row list
     \<Rightarrow> (comments_row \<times> users_row) list \<Rightarrow> TaskView" where
  "bootstrap_getFullTaskViewModel taskDbRow allAssignees allDependencies allComments =
     \<lparr> tv_row = taskDbRow,
       tv_assigneeIds = map as_user_id
         (filter (\<lambda>a. as_task_id a = tk_task_id taskDbRow) allAssignees),
       tv_dependencies = map dp_source_task_id
         (filter (\<lambda>d. dp_target_task_id d = tk_task_id taskDbRow) allDependencies),
       tv_comments = map commentView
         (filter (\<lambda>c. co_task_id (fst c) = tk_task_id taskDbRow) allComments) \<rparr>"

text \<open>
  The query of the \<^verbatim>\<open>else\<close> branch (``Employee or Guest''):
  \<^verbatim>\<open>SELECT DISTINCT p.project_id FROM projects p LEFT JOIN tasks t ON ... LEFT JOIN
  task_assignees ta ON ... WHERE ta.user_id = $1 OR p.project_id = (SELECT project_id FROM
  users WHERE user_id = $1)\<close>. A project is kept when one of its tasks has an assignee row
  for the caller, or when its identifier is the \<^verbatim>\<open>project_id\<close> stored in the caller's
  user row (a comparison with \<^verbatim>\<open>NULL\<close>, or with no row, is not true).
\<close>

definition storedProjectId :: "Pg \<Rightarrow> string \<Rightarrow> string option" where
  "storedProjectId db userId =
     (case filter (\<lambda>u. us_user_id u = userId) (pg_users db) of
        [] \<Rightarrow> None
      | u # _ \<Rightarrow> us_project_id u)"

definition accessibleProjectIds :: "Pg \<Rightarrow> string \<Rightarrow> string list" where
  "accessibleProjectIds db userId =
     remdups (map pj_project_id
       (filter (\<lambda>p.
            list_ex (\<lambda>t. pj_project_id p = tk_project_id t
                          \<and> list_ex (\<lambda>ta. tk_task_id t = as_task_id ta \<and> as_user_id ta = userId)
                                     (pg_task_assignees db))
                    (pg_tasks db)
            \<or> storedProjectId db userId = Some (pj_project_id p))
          (pg_projects db)))"

definition projectsFor :: "Pg \<Rightarrow> AuthUser \<Rightarrow> projects_row list" where
  "projectsFor db user =
     (if au_role user = Super_Admin then rev (sort_key pj_start_date (pg_projects db))
      else if au_role user = Team_Leader
      then rev (sort_key pj_start_date
                  (filter (\<lambda>p. Some (pj_team_id p) = au_teamId user) (pg_projects db)))
      else
        let ids = accessibleProjectIds db (au_id user)
        in if ids \<noteq> [] then filter (\<lambda>p. pj_project_id p \<in> set ids) (pg_projects db)
           else [])"

record BootstrapData =
  bd_users :: "UserPublic list"
  bd_teams :: "TeamPublic list"
  bd_projects :: "projects_row list"
  bd_tasks :: "TaskView list"
  bd_financials :: "financial_entries_row list"
  bd_organizationSettings :: OrganizationSettings

text \<open>The fixed organisation name of the response, as the UTF-8 bytes of the source text.\<close>

definition organizationName :: string where
  "organizationName =
     [CHR 0xD7, CHR 0x9E, CHR 0xD7, CHR 0xA0, CHR 0xD7, CHR 0x94, CHR 0xD7, CHR 0x9C, CHR 0x20,
      CHR 0xD7, CHR 0xA4, CHR 0xD7, CHR 0xA8, CHR 0xD7, CHR 0x95, CHR 0xD7, CHR 0x99, CHR 0xD7,
      CHR 0xA7, CHR 0xD7, CHR 0x98, CHR 0xD7, CHR 0x99, CHR 0xD7, CHR 0x9D, CHR 0x20, CHR 0xD7,
      CHR 0x97, CHR 0xD7, CHR 0x9B, CHR 0xD7, CHR 0x9D]"

definition getInitialData :: "stmt option \<Rightarrow> AuthUser option \<Rightarrow> Pg \<Rightarrow> BootstrapData response" where
  "getInitialData fault reqUser db =
     (case reqUser of
        None \<Rightarrow> Not_Authorized
      | Some user \<Rightarrow>
          let usersResult = map userPublic (sort_key us_full_name (pg_users db));
              teamsResult = map teamPublic (pg_teams db);
              projectsResult = projectsFor db user;
              projectIds = map pj_project_id projectsResult;
              tasksResult = (if projectIds \<noteq> []
                             then filter (\<lambda>t. tk_project_id t \<in> set projectIds) (pg_tasks db)
                             else []);
              financialsResult = (if projectIds \<noteq> []
                             then filter (\<lambda>f. fe_project_id f \<in> set projectIds)
                                         (pg_financial_entries db)
                             else []);
              taskIds = map tk_task_id tasksResult;
              fetch = (projectIds \<noteq> [] \<and> taskIds \<noteq> []);
              assigneesResult = (if fetch
                             then filter (\<lambda>a. as_task_id a \<in> set taskIds) (pg_task_assignees db)
                             else []);
              dependenciesResult = (if fetch
                             then filter (\<lambda>d. dp_target_task_id d \<in> set taskIds)
                                         (pg_task_dependencies db)
                             else []);
              commentsResult = (if fetch then commentsQuery db (\<lambda>t. t \<in> set taskIds) else []);
              sent = [SELECT ''users'', SELECT ''teams'', SELECT ''projects''] @
                     (if projectIds \<noteq> [] then [SELECT ''tasks'', SELECT ''financial_entries'']
                      else []) @
                     (if fetch then [SELECT ''task_assignees'', SELECT ''task_dependencies'',
                                     SELECT ''comments''] else []);
              tasksViewModel = map (\<lambda>task. bootstrap_getFullTaskViewModel task
                                     assigneesResult dependenciesResult commentsResult)
                                   tasksResult
          in if throws fault sent then Server_Error
             else Ok \<lparr> bd_users = usersResult, bd_teams = teamsResult,
                       bd_projects = projectsResult, bd_tasks = tasksViewModel,
                       bd_financials = financialsResult,
                       bd_organizationSettings =
                         \<lparr> os_name = organizationName, os_logoUrl = [] \<rparr> \<rparr>)"

subsection \<open>\<^verbatim>\<open>addFinancialEntry\<close> in \<^verbatim>\<open>finances.controller.ts\<close>\<close>

text \<open>
  \<^verbatim>\<open>req.body\<close>: any field may be absent. The first test rejects a required field that is
  absent, the empty string or zero.
\<close>

record FinancialBody =
  fb_type :: "string option"
  fb_amount :: "int option"
  fb_description :: "string option"
  fb_date :: "string option"
  fb_projectId :: "string option"
  fb_source :: "string option"

text \<open>\<open>newId\<close> is the \<^verbatim>\<open>entry_id\<close> the database generates for the inserted row.\<close>

definition addFinancialEntry ::
  "stmt option \<Rightarrow> string \<Rightarrow> AuthUser option \<Rightarrow> FinancialBody \<Rightarrow> Pg
     \<Rightarrow> Pg \<times> financial_entries_row response" where
  "addFinancialEntry fault newId reqUser body db =
     (case (fb_type body, fb_amount body, fb_date body, fb_projectId body, fb_source body) of
        (Some type, Some amount, Some date, Some projectId, Some source) \<Rightarrow>
          if type = [] \<or> amount = 0 \<or> date = [] \<or> projectId = [] \<or> source = []
          then (db, Bad_Request)
          else if type = ''Income'' \<and> map_option au_role reqUser \<noteq> Some Super_Admin
          then (db, Forbidden)
          else if fault = Some (INSERT ''financial_entries'') then (db, Server_Error)
          else
            let row = \<lparr> fe_entry_id = newId, fe_entry_type = type, fe_amount = amount,
                        fe_description = fb_description body, fe_entry_date = date,
                        fe_project_id = projectId, fe_source = source \<rparr>
            in (db \<lparr> pg_financial_entries := pg_financial_entries db @ [row] \<rparr>, Created row)
      | _ \<Rightarrow> (db, Bad_Request))"

subsection \<open>\<^verbatim>\<open>deleteTeam\<close> and \<^verbatim>\<open>addMembersToTeam\<close> in \<^verbatim>\<open>teams.controller.ts\<close>\<close>

text \<open>\<^verbatim>\<open>RETURNING user_id as id, full_name as name, email, role, team_id as "teamId"\<close>\<close>

record UserSummary =
  sm_id :: string
  sm_name :: string
  sm_email :: string
  sm_role :: UserRole
  sm_teamId :: "string option"

definition userSummary :: "users_row \<Rightarrow> UserSummary" where
  "userSummary u =
     \<lparr> sm_id = us_user_id u, sm_name = us_full_name u, sm_email = us_email u,
       sm_role = us_role u, sm_teamId = us_team_id u \<rparr>"

definition deleteTeam :: "stmt option \<Rightarrow> string \<Rightarrow> Pg \<Rightarrow> Pg \<times> UserSummary list response" where
  "deleteTeam fault teamId db =
     (if fault = Some BEGIN then (db, Server_Error)
      else
        let hit = (\<lambda>u. us_team_id u = Some teamId);
            w1 = db \<lparr> pg_users := map (\<lambda>u. if hit u then u \<lparr> us_team_id := None \<rparr> else u)
                                      (pg_users db) \<rparr>;
            usersResult = map (\<lambda>u. userSummary (u \<lparr> us_team_id := None \<rparr>))
                              (filter hit (pg_users db))
        in if fault = Some (UPDATE ''users'') then (db, Server_Error)
           else
             let w2 = w1 \<lparr> pg_teams := filter (\<lambda>t. te_team_id t \<noteq> teamId) (pg_teams w1) \<rparr>
             in if fault = Some (DELETE ''teams'') then (db, Server_Error)
                else if fault = Some COMMIT then (db, Server_Error)
                else (w2, Ok usersResult))"

text \<open>\<open>user_ids\<close> is \<open>None\<close> when the body has no array under that name.\<close>

definition addMembersToTeam ::
  "stmt option \<Rightarrow> AuthUser option \<Rightarrow> string \<Rightarrow> string list option \<Rightarrow> Pg
     \<Rightarrow> Pg \<times> UserSummary list response" where
  "addMembersToTeam fault requestingUser teamId user_ids db =
     (case user_ids of
        None \<Rightarrow> (db, Bad_Request)
      | Some ids \<Rightarrow>
          if ids = [] then (db, Bad_Request)
          else if fault = Some (SELECT ''teams'') then (db, Server_Error)
          else
            (case filter (\<lambda>t. te_team_id t = teamId) (pg_teams db) of
               [] \<Rightarrow> (db, Not_Found)
             | team # _ \<Rightarrow>
                 if (case requestingUser of
                       None \<Rightarrow> False
                     | Some r \<Rightarrow> au_role r = Team_Leader
                                 \<and> te_team_leader_id team \<noteq> Some (au_id r))
                 then (db, Forbidden)
                 else if fault = Some (UPDATE ''users'') then (db, Server_Error)
                 else
                   let hit = (\<lambda>u. us_user_id u \<in> set ids \<and> us_team_id u = None);
                       db' = db \<lparr> pg_users :=
                               map (\<lambda>u. if hit u then u \<lparr> us_team_id := Some teamId \<rparr> else u)
                                   (pg_users db) \<rparr>;
                       updatedUserResult = map (\<lambda>u. userSummary (u \<lparr> us_team_id := Some teamId \<rparr>))
                                               (filter hit (pg_users db))
                   in (db', Ok updatedUserResult)))"

subsection \<open>\<^verbatim>\<open>deleteUser\<close> in \<^verbatim>\<open>users.controller.ts\<close>\<close>

text \<open>\<^verbatim>\<open>RETURNING user_id, full_name, email, role, team_id, disabled, avatar_url\<close>\<close>

record UserRecord =
  ur_user_id :: string
  ur_full_name :: string
  ur_email :: string
  ur_role :: UserRole
  ur_team_id :: "string option"
  ur_disabled :: bool
  ur_avatar_url :: "string option"

definition userRecord :: "users_row \<Rightarrow> UserRecord" where
  "userRecord u =
     \<lparr> ur_user_id = us_user_id u, ur_full_name = us_full_name u, ur_email = us_email u,
       ur_role = us_role u, ur_team_id = us_team_id u, ur_disabled = us_disabled u,
       ur_avatar_url = us_avatar_url u \<rparr>"

definition deleteUser :: "stmt option \<Rightarrow> string \<Rightarrow> Pg \<Rightarrow> Pg \<times> UserRecord response" where
  "deleteUser fault userId db =
     (if fault = Some (SELECT ''users'') then (db, Server_Error)
      else
        (case filter (\<lambda>u. us_user_id u = userId) (pg_users db) of
           [] \<Rightarrow> (db, Not_Found)
         | row # _ \<Rightarrow>
             if us_role row = Guest
             then (if fault = Some (DELETE ''users'') then (db, Server_Error)
                   else (db \<lparr> pg_users := filter (\<lambda>u. us_user_id u \<noteq> userId) (pg_users db) \<rparr>,
                         No_Content))
             else (if fault = Some (UPDATE ''users'') then (db, Server_Error)
                   else
                     let db' = db \<lparr> pg_users :=
                                 map (\<lambda>u. if us_user_id u = userId
                                          then u \<lparr> us_disabled := True \<rparr> else u) (pg_users db) \<rparr>;
                         result = map (\<lambda>u. userRecord (u \<lparr> us_disabled := True \<rparr>))
                                      (filter (\<lambda>u. us_user_id u = userId) (pg_users db))
                     in (case result of
                           [] \<Rightarrow> (db', Not_Found)
                         | r # _ \<Rightarrow> (db', Ok r)))))"

section \<open>Visibility of projects\<close>

text \<open>
  The projects whose tasks \<^verbatim>\<open>getInitialData\<close> selects, read off the three branches of the
  controller: every project for a Super Admin; the projects of the caller's team for a
  Team Leader; and for every other role, Employee and Guest alike, the projects that hold
  a task assigned to the caller together with the project stored in the caller's user row.
\<close>

definition assignedIn :: "Pg \<Rightarrow> string \<Rightarrow> string \<Rightarrow> bool" where
  "assignedIn db userId projectId =
     list_ex (\<lambda>t. tk_project_id t = projectId
                   \<and> list_ex (\<lambda>ta. as_task_id ta = tk_task_id t \<and> as_user_id ta = userId)
                              (pg_task_assignees db))
             (pg_tasks db)"

definition visibleProject :: "Pg \<Rightarrow> AuthUser \<Rightarrow> string \<Rightarrow> bool" where
  "visibleProject db user projectId =
     list_ex (\<lambda>p. pj_project_id p = projectId \<and>
                (case au_role user of
                   Super_Admin \<Rightarrow> True
                 | Team_Leader \<Rightarrow> Some (pj_team_id p) = au_teamId user
                 | _ \<Rightarrow> assignedIn db (au_id user) projectId
                        \<or> storedProjectId db (au_id user) = Some projectId))
             (pg_projects db)"

text \<open>
  The visibility set as the specification words it (section 4.1), for comparison: an
  Employee sees the projects with a task assigned to them, a Guest exactly the project of
  their own \<^verbatim>\<open>projectId\<close>.
\<close>

definition spec_visibleProject :: "Pg \<Rightarrow> AuthUser \<Rightarrow> string \<Rightarrow> bool" where
  "spec_visibleProject db user projectId =
     list_ex (\<lambda>p. pj_project_id p = projectId \<and>
                (case au_role user of
                   Super_Admin \<Rightarrow> True
                 | Team_Leader \<Rightarrow> Some (pj_team_id p) = au_teamId user
                 | Employee \<Rightarrow> assignedIn db (au_id user) projectId
                 | Guest \<Rightarrow> storedProjectId db (au_id user) = Some projectId))
             (pg_projects db)"

text \<open>The task rows of a bootstrap response (none in an error) and their projects.\<close>

definition taskRows :: "BootstrapData response \<Rightarrow> tasks_row list" where
  "taskRows r = (case r of Ok d \<Rightarrow> map tv_row (bd_tasks d) | _ \<Rightarrow> [])"

definition taskProjectIds :: "BootstrapData response \<Rightarrow> string list" where
  "taskProjectIds r = map tk_project_id (taskRows r)"

section \<open>Two small stores\<close>

text \<open>
  A relational store with two teams, two projects and one task in each. The guest
  \<open>g1\<close> is invited to \<open>proj-alpha\<close> and is an assignee of the task of \<open>proj-beta\<close>.
\<close>

definition ex_user :: "string \<Rightarrow> string \<Rightarrow> UserRole \<Rightarrow> string option \<Rightarrow> string option \<Rightarrow> users_row" where
  "ex_user i n r t p =
     \<lparr> us_user_id = i, us_full_name = n, us_email = i @ ''@example.com'',
       us_password_hash = ''x'', us_role = r, us_team_id = t, us_project_id = p,
       us_disabled = False, us_avatar_url = None, us_notification_preferences = None \<rparr>"

definition ex_task :: "string \<Rightarrow> string \<Rightarrow> tasks_row" where
  "ex_task i p =
     \<lparr> tk_task_id = i, tk_title = ''Task '' @ i, tk_description = '''',
       tk_columnId = ''col-not-started'', tk_start_date = ''2024-01-01'',
       tk_end_date = ''2024-01-31'', tk_planned_cost = 0, tk_actual_cost = 0,
       tk_baseline_start_date = None, tk_baseline_end_date = None, tk_project_id = p,
       tk_is_milestone = False, tk_parent_id = None \<rparr>"

definition ex_pg :: Pg where
  "ex_pg =
     \<lparr> pg_users =
         [ex_user ''u1'' ''Alex'' Super_Admin None None,
          ex_user ''u2'' ''Jane'' Team_Leader (Some ''team-dev'') None,
          ex_user ''u3'' ''Sam'' Employee (Some ''team-dev'') None,
          ex_user ''u4'' ''Maria'' Employee None None,
          ex_user ''g1'' ''Gil'' Guest None (Some ''proj-alpha'')],
       pg_teams =
         [\<lparr> te_team_id = ''team-dev'', te_team_name = ''Dev'', te_team_leader_id = Some ''u2'' \<rparr>,
          \<lparr> te_team_id = ''team-mkt'', te_team_name = ''Mkt'', te_team_leader_id = None \<rparr>],
       pg_projects =
         [\<lparr> pj_project_id = ''proj-alpha'', pj_title = ''Alpha'', pj_description = '''',
            pj_team_id = ''team-dev'', pj_budget = 50000, pj_start_date = ''2024-01-01'',
            pj_end_date = ''2024-06-30'' \<rparr>,
          \<lparr> pj_project_id = ''proj-beta'', pj_title = ''Beta'', pj_description = '''',
            pj_team_id = ''team-mkt'', pj_budget = 75000, pj_start_date = ''2024-02-01'',
            pj_end_date = ''2024-09-30'' \<rparr>],
       pg_tasks = [ex_task ''t1'' ''proj-alpha'', ex_task ''t2'' ''proj-beta''],
       pg_task_assignees =
         [\<lparr> as_task_id = ''t1'', as_user_id = ''u3'' \<rparr>,
          \<lparr> as_task_id = ''t2'', as_user_id = ''g1'' \<rparr>],
       pg_task_dependencies =
         [\<lparr> dp_source_task_id = ''t1'', dp_target_task_id = ''t2'' \<rparr>],
       pg_comments =
         [\<lparr> co_comment_id = ''c1'', co_content = ''later'', co_timestamp = 200,
            co_parent_id = None, co_task_id = ''t1'', co_user_id = ''u3'' \<rparr>,
          \<lparr> co_comment_id = ''c2'', co_content = ''earlier'', co_timestamp = 100,
            co_parent_id = None, co_task_id = ''t1'', co_user_id = ''u2'' \<rparr>],
       pg_financial_entries = [] \<rparr>"

definition ex_guest :: AuthUser where
  "ex_guest = \<lparr> au_id = ''g1'', au_role = Guest, au_teamId = None \<rparr>"

definition ex_body :: "string list \<Rightarrow> TaskUpdate" where
  "ex_body ids =
     \<lparr> tu_title = ''Task t1'', tu_description = '''', tu_startDate = ''2024-01-01'',
       tu_endDate = ''2024-01-31'', tu_columnId = ''col-started'', tu_assigneeIds = Some ids,
       tu_baselineStartDate = None, tu_baselineEndDate = None \<rparr>"

text \<open>
  An in-memory store of the same shape. The two comments of task \<open>t1\<close> were pushed in
  the order \<open>c1\<close>, \<open>c2\<close>, and \<open>c2\<close> carries the earlier timestamp.
\<close>

definition mem_user :: "string \<Rightarrow> UserRole \<Rightarrow> string option \<Rightarrow> string option \<Rightarrow> User" where
  "mem_user i r t p =
     \<lparr> u_id = i, u_name = ''User '' @ i, u_email = i @ ''@example.com'', u_password = ''pw'',
       u_avatarUrl = ''https://i.pravatar.cc/150?u='' @ i, u_role = r, u_teamId = t,
       u_projectId = p, u_disabled = None, u_notificationPreferences = Some allPreferences \<rparr>"

definition mem_task :: "string \<Rightarrow> string \<Rightarrow> string \<Rightarrow> DbTask" where
  "mem_task i p e =
     \<lparr> t_id = i, t_title = ''Task '' @ i, t_description = '''',
       t_columnId = ''col-started'', t_startDate = ''2024-01-01'', t_endDate = e,
       t_plannedCost = 0, t_actualCost = 0, t_baselineStartDate = None,
       t_baselineEndDate = None, t_projectId = p, t_isMilestone = None, t_parentId = None \<rparr>"

definition ex_db :: Db where
  "ex_db =
     \<lparr> users =
         [mem_user ''u1'' Super_Admin None None,
          mem_user ''u2'' Team_Leader (Some ''team-dev'') None,
          mem_user ''u3'' Employee (Some ''team-dev'') None,
          mem_user ''g1'' Guest None (Some ''proj-alpha'')],
       teams = [\<lparr> tm_id = ''team-dev'', tm_name = ''Dev'', tm_leaderId = Some ''u2'' \<rparr>],
       projects =
         [\<lparr> p_id = ''proj-alpha'', p_name = ''Alpha'', p_teamId = ''team-dev'', p_budget = 50000,
            p_description = '''', p_startDate = ''2024-01-01'', p_endDate = ''2024-06-30'' \<rparr>,
          \<lparr> p_id = ''proj-beta'', p_name = ''Beta'', p_teamId = ''team-mkt'', p_budget = 75000,
            p_description = '''', p_startDate = ''2024-02-01'', p_endDate = ''2024-09-30'' \<rparr>],
       tasks = [mem_task ''t1'' ''proj-alpha'' ''2024-01-31'',
                mem_task ''t2'' ''proj-beta'' ''2024-02-28''],
       financial_entries = [],
       db_comments =
         [\<lparr> c_id = ''c1'', c_userId = ''u3'', c_text = ''later'',
            c_timestamp = ''2024-01-02T10:00:00.000Z'', c_taskId = ''t1'', c_parentId = None \<rparr>,
          \<lparr> c_id = ''c2'', c_userId = ''u2'', c_text = ''earlier'',
            c_timestamp = ''2024-01-01T10:00:00.000Z'', c_taskId = ''t1'', c_parentId = None \<rparr>],
       task_assignees = [\<lparr> ta_task_id = ''t1'', ta_user_id = ''u3'' \<rparr>],
       task_dependencies = [\<lparr> td_source_task_id = ''t1'', td_target_task_id = ''t2'' \<rparr>] \<rparr>"

definition ex_admin :: User where
  "ex_admin = mem_user ''u1'' Super_Admin None None"

definition ex_leader :: User where
  "ex_leader = mem_user ''u2'' Team_Leader (Some ''team-dev'') None"

definition ex_income :: TransactionData where
  "ex_income =
     \<lparr> fd_type = Income, fd_date = ''2024-03-01'', fd_source = ''Client'',
       fd_description = ''Milestone payment'', fd_amount = 25000,
       fd_projectId = ''proj-alpha'' \<rparr>"

definition ex_t1 :: "string list \<Rightarrow> Task" where
  "ex_t1 ids =
     \<lparr> core = mem_task ''t1'' ''proj-alpha'' ''2024-01-31'', assigneeIds = ids,
       dependencies = [], comments = [] \<rparr>"

text \<open>
  The time value of \<^verbatim>\<open>new Date(s)\<close>, in milliseconds, for the two date strings used above;
  every other string counts as an invalid date.
\<close>

definition ex_parseDate :: "string \<Rightarrow> int option" where
  "ex_parseDate s =
     (if s = ''2024-01-31'' then Some 1706659200000
      else if s = ''2024-02-28'' then Some 1709078400000 else None)"

definition ex_tasks :: "Task list" where
  "ex_tasks = id_tasks (api_getInitialData ex_db)"

section \<open>Vocabulary of the statements\<close>

text \<open>A response that carries a body: status 200 or 201.\<close>

definition succeeded :: "'a response \<Rightarrow> bool" where
  "succeeded r = (case r of Ok _ \<Rightarrow> True | Created _ \<Rightarrow> True | _ \<Rightarrow> False)"

text \<open>The assignee links stored for one task, in either store.\<close>

definition assigneesOf :: "Pg \<Rightarrow> string \<Rightarrow> task_assignees_row list" where
  "assigneesOf db taskId = filter (\<lambda>a. as_task_id a = taskId) (pg_task_assignees db)"

definition mem_assigneesOf :: "Db \<Rightarrow> string \<Rightarrow> TaskAssignee list" where
  "mem_assigneesOf db taskId = filter (\<lambda>a. ta_task_id a = taskId) (task_assignees db)"

text \<open>A notification for the tuple (recipient, task, text).\<close>

definition sameTuple :: "string \<Rightarrow> string \<Rightarrow> string \<Rightarrow> Notification \<Rightarrow> bool" where
  "sameTuple userId taskId txt n = (n_userId n = userId \<and> n_taskId n = taskId \<and> n_text n = txt)"

definition ex_reg :: RegisterData where
  "ex_reg = \<lparr> rd_fullName = ''Dana'', rd_email = ''dana@example.com'',
              rd_password = ''secret'', rd_companyName = ''Acme'' \<rparr>"

section \<open>Registration resets the in-memory store\<close>

text \<open>
  C9. In the in-memory store, \<^verbatim>\<open>register\<close> succeeds exactly when no stored user has the
  same e-mail address up to letter case, and then the whole store is replaced: it holds
  exactly one user, the account just created, with role Super Admin and the given name,
  e-mail and password, and every other collection (teams, projects, tasks, financial
  entries, comments, assignee links, dependency links) is empty, whatever the store held
  before. Otherwise the call throws and the store is untouched.
\<close>

theorem register_resets_store:
  "(\<not> list_ex (\<lambda>u. lc (u_email u) = lc (rd_email data)) (users db) \<longrightarrow>
      (\<exists>admin settings.
           api_register lc now data db =
             (\<lparr> users = [admin], teams = [], projects = [], tasks = [],
                financial_entries = [], db_comments = [], task_assignees = [],
                task_dependencies = [] \<rparr>, Inr (admin, settings))
           \<and> u_role admin = Super_Admin
           \<and> u_name admin = rd_fullName data
           \<and> u_email admin = rd_email data
           \<and> u_password admin = rd_password data))
   \<and> (list_ex (\<lambda>u. lc (u_email u) = lc (rd_email data)) (users db) \<longrightarrow>
        api_register lc now data db = (db, Inl Email_exists))"
  by (simp add: api_register_def Let_def)

theorem register_resets_store_witness:
  "\<not> list_ex (\<lambda>u. id (u_email u) = id (rd_email ex_reg)) (users ex_db)
   \<and> map u_role (users (fst (api_register id 0 ex_reg ex_db))) = [Super_Admin]
   \<and> teams (fst (api_register id 0 ex_reg ex_db)) = []
   \<and> tasks (fst (api_register id 0 ex_reg ex_db)) = []"
proof -
  have h: "\<not> list_ex (\<lambda>u. id (u_email u) = id (rd_email ex_reg)) (users ex_db)"
    by (simp add: ex_reg_def ex_db_def mem_user_def)
  from register_resets_store [where lc = id and data = ex_reg and db = ex_db and now = 0] h
  obtain admin settings where
    "api_register id 0 ex_reg ex_db =
             (\<lparr> users = [admin], teams = [], projects = [], tasks = [],
                financial_entries = [], db_comments = [], task_assignees = [],
                task_dependencies = [] \<rparr>, Inr (admin, settings))"
    and "u_role admin = Super_Admin"
    by blast
  then show ?thesis using h by simp
qed

section \<open>Updating a task\<close>

lemma updateTask_links:
  assumes "succeeded (snd (updateTask fault tid b db))"
  shows "assigneesOf (fst (updateTask fault tid b db)) tid =
           map (\<lambda>uid. \<lparr> as_task_id = tid, as_user_id = uid \<rparr>)
               (case tu_assigneeIds b of None \<Rightarrow> [] | Some l \<Rightarrow> l)"
  using assms
  by (auto simp: updateTask_def Let_def succeeded_def assigneesOf_def filter_map o_def
           split: if_splits option.splits)

lemma api_updateTask_links:
  assumes "snd (api_updateTask t cu db) = Inr v"
  shows "mem_assigneesOf (fst (api_updateTask t cu db)) (t_id (core t)) =
           map (\<lambda>uid. \<lparr> ta_task_id = t_id (core t), ta_user_id = uid \<rparr>) (assigneeIds t)
         \<and> assigneeIds v = assigneeIds t"
  using assms
  by (auto simp: api_updateTask_def Let_def mem_assigneesOf_def mem_getTaskViewModel_def filter_map o_def
           split: if_splits option.splits)

lemma distinct_links: "distinct ids \<Longrightarrow> distinct (map (\<lambda>uid. \<lparr> as_task_id = tid, as_user_id = uid \<rparr>) ids)"
  by (simp add: distinct_map inj_on_def)

lemma distinct_mem_links: "distinct ids \<Longrightarrow> distinct (map (\<lambda>uid. \<lparr> ta_task_id = tid, ta_user_id = uid \<rparr>) ids)"
  by (simp add: distinct_map inj_on_def)

text \<open>
  C3. Two calls of \<^verbatim>\<open>updateTask\<close> on the same task, the second with a duplicate-free list
  of assignees: afterwards the assignee links stored for the task are exactly those of the
  second list, each once, whatever the first call had stored (for the lists \<open>[A, B]\<close> and
  \<open>[B, C]\<close>: \<open>A\<close> is gone, \<open>C\<close> is there, \<open>B\<close> stays, no link twice). This holds for the
  controller on the relational store and for the in-memory API.
\<close>

theorem updateTask_replaces_assignees:
  "(succeeded (snd (updateTask f1 tid b1 db))
      \<and> succeeded (snd (updateTask f2 tid b2 (fst (updateTask f1 tid b1 db))))
      \<and> tu_assigneeIds b2 = Some ids \<and> distinct ids
    \<longrightarrow> map as_user_id (assigneesOf (fst (updateTask f2 tid b2 (fst (updateTask f1 tid b1 db)))) tid) = ids
        \<and> distinct (assigneesOf (fst (updateTask f2 tid b2 (fst (updateTask f1 tid b1 db)))) tid))
   \<and> (snd (api_updateTask t1 c1 m) = Inr r1
      \<and> snd (api_updateTask t2 c2 (fst (api_updateTask t1 c1 m))) = Inr r2
      \<and> t_id (core t2) = t_id (core t1) \<and> distinct (assigneeIds t2)
    \<longrightarrow> map ta_user_id (mem_assigneesOf (fst (api_updateTask t2 c2 (fst (api_updateTask t1 c1 m))))
                                          (t_id (core t1)))
          = assigneeIds t2
        \<and> distinct (mem_assigneesOf (fst (api_updateTask t2 c2 (fst (api_updateTask t1 c1 m))))
                                     (t_id (core t1)))
        \<and> assigneeIds r2 = assigneeIds t2)"
proof (intro conjI impI)
  assume a: "succeeded (snd (updateTask f1 tid b1 db))
      \<and> succeeded (snd (updateTask f2 tid b2 (fst (updateTask f1 tid b1 db))))
      \<and> tu_assigneeIds b2 = Some ids \<and> distinct ids"
  let ?db1 = "fst (updateTask f1 tid b1 db)"
  have l: "assigneesOf (fst (updateTask f2 tid b2 ?db1)) tid =
           map (\<lambda>uid. \<lparr> as_task_id = tid, as_user_id = uid \<rparr>) ids"
    using updateTask_links[of f2 tid b2 ?db1] a by simp
  show "map as_user_id (assigneesOf (fst (updateTask f2 tid b2 ?db1)) tid) = ids"
    by (simp add: l o_def)
  show "distinct (assigneesOf (fst (updateTask f2 tid b2 ?db1)) tid)"
    using a by (simp add: l distinct_links)
next
  assume a: "snd (api_updateTask t1 c1 m) = Inr r1
      \<and> snd (api_updateTask t2 c2 (fst (api_updateTask t1 c1 m))) = Inr r2
      \<and> t_id (core t2) = t_id (core t1) \<and> distinct (assigneeIds t2)"
  let ?m1 = "fst (api_updateTask t1 c1 m)"
  have l: "mem_assigneesOf (fst (api_updateTask t2 c2 ?m1)) (t_id (core t1)) =
           map (\<lambda>uid. \<lparr> ta_task_id = t_id (core t1), ta_user_id = uid \<rparr>) (assigneeIds t2)
         \<and> assigneeIds r2 = assigneeIds t2"
    using api_updateTask_links[of t2 c2 ?m1 r2] a by simp
  show "map ta_user_id (mem_assigneesOf (fst (api_updateTask t2 c2 ?m1)) (t_id (core t1)))
          = assigneeIds t2"
    by (simp add: l o_def)
  show "distinct (mem_assigneesOf (fst (api_updateTask t2 c2 ?m1)) (t_id (core t1)))"
    using a by (simp add: l distinct_mem_links)
  show "assigneeIds r2 = assigneeIds t2" by (simp add: l)
qed

lemma updateTask_no_fault: "succeeded (snd (updateTask None tid b db))"
  by (simp add: updateTask_def Let_def throws_def succeeded_def)

lemma ex_db1_eval:
  "api_updateTask (ex_t1 [''u2'', ''u3'']) ex_admin ex_db =
     (ex_db \<lparr> task_assignees := [\<lparr> ta_task_id = ''t1'', ta_user_id = ''u2'' \<rparr>,
                                 \<lparr> ta_task_id = ''t1'', ta_user_id = ''u3'' \<rparr>] \<rparr>,
      Inr (mem_getTaskViewModel
             (ex_db \<lparr> task_assignees := [\<lparr> ta_task_id = ''t1'', ta_user_id = ''u2'' \<rparr>,
                                         \<lparr> ta_task_id = ''t1'', ta_user_id = ''u3'' \<rparr>] \<rparr>)
             (mem_task ''t1'' ''proj-alpha'' ''2024-01-31'')))"
  by (simp add: api_updateTask_def ex_t1_def ex_admin_def ex_db_def mem_user_def mem_task_def
                Let_def)

lemma ex_db2_eval:
  "snd (api_updateTask (ex_t1 [''u3'', ''u4'']) ex_admin
          (ex_db \<lparr> task_assignees := [\<lparr> ta_task_id = ''t1'', ta_user_id = ''u2'' \<rparr>,
                                      \<lparr> ta_task_id = ''t1'', ta_user_id = ''u3'' \<rparr>] \<rparr>)) =
     Inr (mem_getTaskViewModel
             (ex_db \<lparr> task_assignees := [\<lparr> ta_task_id = ''t1'', ta_user_id = ''u3'' \<rparr>,
                                         \<lparr> ta_task_id = ''t1'', ta_user_id = ''u4'' \<rparr>] \<rparr>)
             (mem_task ''t1'' ''proj-alpha'' ''2024-01-31''))"
  by (simp add: api_updateTask_def ex_t1_def ex_admin_def ex_db_def mem_user_def mem_task_def
                Let_def)

theorem updateTask_replaces_assignees_witness:
  "map as_user_id (assigneesOf (fst (updateTask None ''t1'' (ex_body [''u3'', ''u4''])
        (fst (updateTask None ''t1'' (ex_body [''u2'', ''u3'']) ex_pg)))) ''t1'') = [''u3'', ''u4'']
   \<and> map ta_user_id (mem_assigneesOf (fst (api_updateTask (ex_t1 [''u3'', ''u4'']) ex_admin
        (fst (api_updateTask (ex_t1 [''u2'', ''u3'']) ex_admin ex_db)))) ''t1'') = [''u3'', ''u4'']"
proof -
  have b: "tu_assigneeIds (ex_body [''u3'', ''u4'']) = Some [''u3'', ''u4'']
           \<and> distinct [''u3'', ''u4'' :: string]"
    by (simp add: ex_body_def)
  have t: "t_id (core (ex_t1 [''u3'', ''u4''])) = t_id (core (ex_t1 [''u2'', ''u3'']))
           \<and> distinct (assigneeIds (ex_t1 [''u3'', ''u4'']))
           \<and> assigneeIds (ex_t1 [''u3'', ''u4'']) = [''u3'', ''u4'']
           \<and> t_id (core (ex_t1 [''u2'', ''u3''])) = ''t1''"
    by (simp add: ex_t1_def mem_task_def)
  have m1: "snd (api_updateTask (ex_t1 [''u2'', ''u3'']) ex_admin ex_db) =
              Inr (projr (snd (api_updateTask (ex_t1 [''u2'', ''u3'']) ex_admin ex_db)))"
    by (simp add: ex_db1_eval)
  have m2: "snd (api_updateTask (ex_t1 [''u3'', ''u4'']) ex_admin
                   (fst (api_updateTask (ex_t1 [''u2'', ''u3'']) ex_admin ex_db))) =
              Inr (projr (snd (api_updateTask (ex_t1 [''u3'', ''u4'']) ex_admin
                   (fst (api_updateTask (ex_t1 [''u2'', ''u3'']) ex_admin ex_db)))))"
    by (simp add: ex_db1_eval ex_db2_eval)
  show ?thesis
    using updateTask_replaces_assignees
            [of None "''t1''" "ex_body [''u2'', ''u3'']" ex_pg None "ex_body [''u3'', ''u4'']"
                "[''u3'', ''u4'']" "ex_t1 [''u2'', ''u3'']" ex_admin ex_db
                "projr (snd (api_updateTask (ex_t1 [''u2'', ''u3'']) ex_admin ex_db))"
                "ex_t1 [''u3'', ''u4'']" ex_admin
                "projr (snd (api_updateTask (ex_t1 [''u3'', ''u4'']) ex_admin
                   (fst (api_updateTask (ex_t1 [''u2'', ''u3'']) ex_admin ex_db))))"]
          updateTask_no_fault b t m1 m2
    by simp
qed

lemma updateTask_frame:
  "pg_comments (fst (updateTask fault tid b db)) = pg_comments db
   \<and> pg_task_dependencies (fst (updateTask fault tid b db)) = pg_task_dependencies db
   \<and> pg_users (fst (updateTask fault tid b db)) = pg_users db"
  by (simp add: updateTask_def Let_def)

lemma filter_map_same_key:
  assumes "\<And>x. P (f x) = P x"
  shows "(filter P (map f xs) = []) = (filter P xs = [])"
  by (induction xs) (auto simp: assms)

lemma updateTask_rows:
  "filter (\<lambda>t. tk_task_id t = x) (pg_tasks (fst (updateTask fault tid b db))) = [] \<longleftrightarrow>
   filter (\<lambda>t. tk_task_id t = x) (pg_tasks db) = []"
proof -
  let ?f = "\<lambda>t. if tk_task_id t = tid
                        then t \<lparr> tk_title := tu_title b,
                                 tk_description := tu_description b,
                                 tk_start_date := tu_startDate b,
                                 tk_end_date := tu_endDate b,
                                 tk_columnId := tu_columnId b,
                                 tk_baseline_start_date := tu_baselineStartDate b,
                                 tk_baseline_end_date := tu_baselineEndDate b \<rparr>
                        else t"
  have "pg_tasks (fst (updateTask fault tid b db)) = pg_tasks db
        \<or> pg_tasks (fst (updateTask fault tid b db)) = map ?f (pg_tasks db)"
    by (simp add: updateTask_def Let_def)
  moreover have "(filter (\<lambda>t. tk_task_id t = x) (map ?f (pg_tasks db)) = [])
                 = (filter (\<lambda>t. tk_task_id t = x) (pg_tasks db) = [])"
    by (rule filter_map_same_key) simp
  ultimately show ?thesis by auto
qed

lemma updateTask_view_frame:
  "map_option tv_comments (getFullTaskViewModel (fst (updateTask fault tid b db)) x) =
   map_option tv_comments (getFullTaskViewModel db x)
   \<and> map_option tv_dependencies (getFullTaskViewModel (fst (updateTask fault tid b db)) x) =
   map_option tv_dependencies (getFullTaskViewModel db x)"
  using updateTask_rows[of x fault tid b db] updateTask_frame[of fault tid b db]
  by (auto simp: getFullTaskViewModel_def commentsQuery_def split: list.splits)

lemma api_updateTask_frame:
  "db_comments (fst (api_updateTask t cu db)) = db_comments db
   \<and> task_dependencies (fst (api_updateTask t cu db)) = task_dependencies db
   \<and> users (fst (api_updateTask t cu db)) = users db"
  by (simp add: api_updateTask_def Let_def split: option.splits)

lemma api_updateTask_view_frame:
  "comments (mem_getTaskViewModel (fst (api_updateTask t cu db)) x) = comments (mem_getTaskViewModel db x)
   \<and> dependencies (mem_getTaskViewModel (fst (api_updateTask t cu db)) x) = dependencies (mem_getTaskViewModel db x)"
  using api_updateTask_frame[of t cu db]
  by (simp add: mem_getTaskViewModel_def)

text \<open>
  C7. Whatever the arguments and the outcome of \<^verbatim>\<open>updateTask\<close>, the stored comments and the
  stored dependency links are the same before and after the call, and so are the comments
  and the dependencies in the assembled view of every task, in both stores.
\<close>

theorem updateTask_leaves_comments_dependencies:
  "pg_comments (fst (updateTask fault tid b db)) = pg_comments db
   \<and> pg_task_dependencies (fst (updateTask fault tid b db)) = pg_task_dependencies db
   \<and> map_option tv_comments (getFullTaskViewModel (fst (updateTask fault tid b db)) x)
       = map_option tv_comments (getFullTaskViewModel db x)
   \<and> map_option tv_dependencies (getFullTaskViewModel (fst (updateTask fault tid b db)) x)
       = map_option tv_dependencies (getFullTaskViewModel db x)
   \<and> db_comments (fst (api_updateTask t cu m)) = db_comments m
   \<and> task_dependencies (fst (api_updateTask t cu m)) = task_dependencies m
   \<and> comments (mem_getTaskViewModel (fst (api_updateTask t cu m)) y)
       = comments (mem_getTaskViewModel m y)
   \<and> dependencies (mem_getTaskViewModel (fst (api_updateTask t cu m)) y)
       = dependencies (mem_getTaskViewModel m y)"
  using updateTask_frame[of fault tid b db] updateTask_view_frame[of fault tid b db x]
        api_updateTask_frame[of t cu m] api_updateTask_view_frame[of t cu m y]
  by simp

theorem updateTask_leaves_comments_dependencies_witness:
  "map co_comment_id (pg_comments (fst (updateTask None ''t1'' (ex_body [''u2'', ''u3'']) ex_pg)))
     = [''c1'', ''c2'']
   \<and> map c_id (db_comments (fst (api_updateTask (ex_t1 [''u2'', ''u3'']) ex_admin ex_db)))
     = [''c1'', ''c2'']"
proof -
  have "map co_comment_id (pg_comments ex_pg) = [''c1'', ''c2'']
        \<and> map c_id (db_comments ex_db) = [''c1'', ''c2'']"
    by (simp add: ex_pg_def ex_db_def)
  then show ?thesis
    using updateTask_leaves_comments_dependencies
            [of None "''t1''" "ex_body [''u2'', ''u3'']" ex_pg _ "ex_t1 [''u2'', ''u3'']"
                ex_admin ex_db]
    by simp
qed

section \<open>The overdue sweep\<close>

lemma enumerate_snd_mem: "c \<in> set xs \<Longrightarrow> \<exists>i. (i, c) \<in> set (enumerate n xs)"
  by (metis in_set_conv_nth nth_enumerate_eq nth_mem length_enumerate)

lemma enumerate_mem_snd: "(i, c) \<in> set (enumerate n xs) \<Longrightarrow> c \<in> set xs"
  by (metis in_set_zipE enumerate_eq_zip)

lemma length_filter_enumerate:
  "length (filter (\<lambda>p. Q (snd p)) (enumerate n xs)) = length (filter Q xs)"
proof -
  have "filter Q (map snd (enumerate n xs)) = map snd (filter (Q \<circ> snd) (enumerate n xs))"
    by (rule filter_map)
  then have "length (filter Q (map snd (enumerate n xs)))
               = length (filter (Q \<circ> snd) (enumerate n xs))"
    by (simp only: length_map)
  then show ?thesis by (simp only: map_snd_enumerate o_def)
qed

lemma addNotification_again:
  "addNotification us now2 mkId2 news type (addNotification us now1 mkId1 news type prev)
     = addNotification us now1 mkId1 news type prev"
proof -
  define mk where "mk = (\<lambda>(now :: string) (mkId :: nat \<Rightarrow> string) (p :: nat \<times> NewNotification).
      \<lparr> n_id = mkId (fst p), n_userId = nn_userId (snd p), n_text = nn_text (snd p),
        n_taskId = nn_taskId (snd p), n_timestamp = now, n_read = False \<rparr>)"
  define dup where "dup = (\<lambda>(ps :: Notification list) (n :: Notification). \<exists>p\<in>set ps. n_userId p = n_userId n \<and> n_taskId p = n_taskId n
                                   \<and> n_text p = n_text n \<and> \<not> n_read p)"
  define ok where "ok = (\<lambda>(ps :: Notification list) (n :: Notification). hasPermission us type (n_userId n) \<and> \<not> dup ps n)"
  define added where "added = filter (ok prev) (map (mk now1 mkId1) (enumerate 0 news))"
  have unfold: "addNotification us now mkId news type ps
                  = filter (ok ps) (map (mk now mkId) (enumerate 0 news)) @ ps" for now mkId ps
    by (simp add: addNotification_def Let_def ok_def dup_def mk_def list_ex_iff case_prod_unfold)
  have first: "addNotification us now1 mkId1 news type prev = added @ prev"
    by (simp only: unfold added_def)
  have fields: "n_userId (mk now mkId p) = nn_userId (snd p) \<and> n_taskId (mk now mkId p) = nn_taskId (snd p)
                \<and> n_text (mk now mkId p) = nn_text (snd p) \<and> \<not> n_read (mk now mkId p)" for now mkId p
    by (simp add: mk_def)
  have none: "\<not> ok (added @ prev) n" if "n \<in> set (map (mk now2 mkId2) (enumerate 0 news))" for n
  proof
    assume okn: "ok (added @ prev) n"
    from that obtain p where p: "p \<in> set (enumerate 0 news)" and n: "n = mk now2 mkId2 p"
      by auto
    have "snd p \<in> set news"
      using p enumerate_mem_snd[of "fst p" "snd p" 0 news] by simp
    then obtain j where j: "(j, snd p) \<in> set (enumerate 0 news)"
      using enumerate_snd_mem by fastforce
    define n1 where "n1 = mk now1 mkId1 (j, snd p)"
    have same: "n_userId n1 = n_userId n \<and> n_taskId n1 = n_taskId n \<and> n_text n1 = n_text n
                \<and> \<not> n_read n1"
      by (simp add: n1_def n fields)
    have perm: "hasPermission us type (n_userId n)" using okn by (simp add: ok_def)
    have nodup: "\<not> dup prev n" using okn by (auto simp: ok_def dup_def)
    have "ok prev n1" using perm nodup same by (simp add: ok_def dup_def)
    then have "n1 \<in> set added"
      using j by (simp add: added_def n1_def)
    then have "dup (added @ prev) n" using same by (auto simp: dup_def)
    then show False using okn by (simp add: ok_def)
  qed
  have "filter (ok (added @ prev)) (map (mk now2 mkId2) (enumerate 0 news)) = []"
    unfolding filter_empty_conv using none by blast
  then have "addNotification us now2 mkId2 news type (added @ prev) = added @ prev"
    using unfold[of now2 mkId2 "added @ prev"] by simp
  then show ?thesis by (simp only: first)
qed

lemma overdueSweep_again:
  "overdueSweep pd today now2 mkId2 projs us ts (overdueSweep pd today now1 mkId1 projs us ts prev)
     = overdueSweep pd today now1 mkId1 projs us ts prev"
  by (simp add: overdueSweep_def Let_def addNotification_again)
lemma concat_filter_none:
  assumes "\<And>t c. t \<in> set ts \<Longrightarrow> c \<in> set (g t) \<Longrightarrow> ckey c = key t"
      and "x \<notin> key ` set ts"
  shows "filter (\<lambda>c. ckey c = x) (concat (map g ts)) = []"
  using assms by (induction ts) (auto simp: filter_empty_conv)

lemma concat_filter_unique:
  assumes "distinct (map key ts)" and "k \<in> set ts"
      and "\<And>t c. t \<in> set ts \<Longrightarrow> c \<in> set (g t) \<Longrightarrow> ckey c = key t"
  shows "filter (\<lambda>c. ckey c = key k) (concat (map g ts)) = g k"
  using assms
proof (induction ts)
  case Nil
  then show ?case by simp
next
  case (Cons t ts)
  show ?case
  proof (cases "t = k")
    case True
    have "key k \<notin> key ` set ts" using Cons.prems(1) True by auto
    then have "filter (\<lambda>c. ckey c = key k) (concat (map g ts)) = []"
      using concat_filter_none[of ts g ckey key "key k"] Cons.prems(3) by auto
    moreover have "filter (\<lambda>c. ckey c = key k) (g k) = g k"
      using Cons.prems(3)[of k] True by (auto simp: filter_id_conv)
    ultimately show ?thesis using True by simp
  next
    case False
    then have kin: "k \<in> set ts" using Cons.prems(2) by simp
    have "key t \<noteq> key k" using Cons.prems(1) kin by auto
    then have "filter (\<lambda>c. ckey c = key k) (g t) = []"
      using Cons.prems(3)[of t] by (auto simp: filter_empty_conv)
    moreover have "filter (\<lambda>c. ckey c = key k) (concat (map g ts)) = g k"
      using Cons.IH Cons.prems kin by auto
    ultimately show ?thesis by simp
  qed
qed

lemma overdue_for_task:
  assumes "distinct (map (\<lambda>t. t_id (core t)) ts)" and "k \<in> set ts"
      and "pd (t_endDate (core k)) = Some e" and "e < today"
      and "t_columnId (core k) \<noteq> ''col-done''"
      and "getTeamLeaderForTask projs us k = Some leader"
  shows "filter (\<lambda>c. nn_taskId c = t_id (core k)) (overdueNotifications pd today projs us ts)
           = [\<lparr> nn_userId = u_id leader,
                 nn_text = overduePrefix @ t_title (core k) @ overdueSuffix,
                 nn_taskId = t_id (core k) \<rparr>]"
proof -
  let ?g = "\<lambda>task.
        (case (pd (t_endDate (core task)), getTeamLeaderForTask projs us task) of
           (Some endDate, Some teamLeader) \<Rightarrow>
             if endDate < today \<and> t_columnId (core task) \<noteq> ''col-done''
             then [\<lparr> nn_userId = u_id teamLeader,
                     nn_text = overduePrefix @ t_title (core task) @ overdueSuffix,
                     nn_taskId = t_id (core task) \<rparr>]
             else []
         | _ \<Rightarrow> [])"
  have key: "\<And>t c. t \<in> set ts \<Longrightarrow> c \<in> set (?g t) \<Longrightarrow> nn_taskId c = t_id (core t)"
    by (auto split: option.splits if_splits)
  have "filter (\<lambda>c. nn_taskId c = t_id (core k)) (concat (map ?g ts)) = ?g k"
    using concat_filter_unique[of "\<lambda>t. t_id (core t)" ts k ?g nn_taskId] assms(1,2) key
    by blast
  moreover have "?g k = [\<lparr> nn_userId = u_id leader,
                 nn_text = overduePrefix @ t_title (core k) @ overdueSuffix,
                 nn_taskId = t_id (core k) \<rparr>]"
    using assms by simp
  ultimately show ?thesis by (simp add: overdueNotifications_def)
qed

lemma addNotification_count:
  assumes "filter (\<lambda>c. nn_taskId c = tid) news = [\<lparr> nn_userId = uid, nn_text = txt, nn_taskId = tid \<rparr>]"
      and "hasPermission us type uid"
      and "\<not> list_ex (sameTuple uid tid txt) prev"
  shows "length (filter (sameTuple uid tid txt) (addNotification us now mkId news type prev)) = 1"
proof -
  let ?mk = "\<lambda>(i, n). \<lparr> n_id = mkId i, n_userId = nn_userId n, n_text = nn_text n,
                 n_taskId = nn_taskId n, n_timestamp = now, n_read = False \<rparr>"
  let ?ok = "\<lambda>n. hasPermission us type (n_userId n)
                        \<and> \<not> list_ex (\<lambda>p. n_userId p = n_userId n \<and> n_taskId p = n_taskId n
                                            \<and> n_text p = n_text n \<and> \<not> n_read p) prev"
  let ?cm = "\<lambda>c. nn_userId c = uid \<and> nn_taskId c = tid \<and> nn_text c = txt"
  have prev0: "filter (sameTuple uid tid txt) prev = []"
    using assms(3) by (simp add: filter_empty_conv list_ex_iff)
  have pointwise: "(sameTuple uid tid txt (?mk p) \<and> ?ok (?mk p)) = ?cm (snd p)" for p
    using assms(2,3) by (cases p) (auto simp: sameTuple_def list_ex_iff)
  have "filter (sameTuple uid tid txt) (filter ?ok (map ?mk (enumerate 0 news)))
          = filter (\<lambda>n. sameTuple uid tid txt n \<and> ?ok n) (map ?mk (enumerate 0 news))"
    by (simp only: filter_filter conj_commute)
  also have "\<dots> = map ?mk (filter (\<lambda>p. sameTuple uid tid txt (?mk p) \<and> ?ok (?mk p))
                                   (enumerate 0 news))"
    by (simp only: filter_map o_def)
  also have "\<dots> = map ?mk (filter (\<lambda>p. ?cm (snd p)) (enumerate 0 news))"
    by (simp only: pointwise)
  finally have "filter (sameTuple uid tid txt) (filter ?ok (map ?mk (enumerate 0 news)))
          = map ?mk (filter (\<lambda>p. ?cm (snd p)) (enumerate 0 news))" .
  then have "length (filter (sameTuple uid tid txt) (filter ?ok (map ?mk (enumerate 0 news))))
          = length (filter (\<lambda>p. ?cm (snd p)) (enumerate 0 news))"
    by (simp only: length_map)
  also have "\<dots> = length (filter ?cm news)"
    by (rule length_filter_enumerate)
  finally have "length (filter (sameTuple uid tid txt) (filter ?ok (map ?mk (enumerate 0 news))))
          = length (filter ?cm news)" .
  moreover have "filter ?cm news = filter ?cm (filter (\<lambda>c. nn_taskId c = tid) news)"
    by (auto intro: filter_cong)
  then have "length (filter ?cm news) = 1" by (simp add: assms(1))
  ultimately show ?thesis by (simp add: addNotification_def Let_def prev0)
qed


text \<open>
  C6. Running the overdue sweep a second time over the same users, projects and tasks
  changes nothing: the notification list after the second run is the list after the
  first. And for an overdue task that is not done, whose team leader accepts
  status notifications, with task identifiers unique and no notification for the tuple
  (leader, task, text) stored before, the list after the two runs holds exactly one
  notification for that tuple.
\<close>

theorem overdue_sweep_dedup:
  "overdueSweep pd today now2 mkId2 projs us ts (overdueSweep pd today now1 mkId1 projs us ts prev)
     = overdueSweep pd today now1 mkId1 projs us ts prev
   \<and> (distinct (map (\<lambda>t. t_id (core t)) ts) \<and> k \<in> set ts
      \<and> pd (t_endDate (core k)) = Some e \<and> e < today \<and> t_columnId (core k) \<noteq> ''col-done''
      \<and> getTeamLeaderForTask projs us k = Some leader
      \<and> hasPermission us OnStatusChange (u_id leader)
      \<and> \<not> list_ex (sameTuple (u_id leader) (t_id (core k))
                              (overduePrefix @ t_title (core k) @ overdueSuffix)) prev
    \<longrightarrow> length (filter (sameTuple (u_id leader) (t_id (core k))
                                  (overduePrefix @ t_title (core k) @ overdueSuffix))
                (overdueSweep pd today now2 mkId2 projs us ts
                   (overdueSweep pd today now1 mkId1 projs us ts prev))) = 1)"
proof (intro conjI impI)
  show again: "overdueSweep pd today now2 mkId2 projs us ts
                 (overdueSweep pd today now1 mkId1 projs us ts prev)
               = overdueSweep pd today now1 mkId1 projs us ts prev"
    by (rule overdueSweep_again)
  assume a: "distinct (map (\<lambda>t. t_id (core t)) ts) \<and> k \<in> set ts
      \<and> pd (t_endDate (core k)) = Some e \<and> e < today \<and> t_columnId (core k) \<noteq> ''col-done''
      \<and> getTeamLeaderForTask projs us k = Some leader
      \<and> hasPermission us OnStatusChange (u_id leader)
      \<and> \<not> list_ex (sameTuple (u_id leader) (t_id (core k))
                              (overduePrefix @ t_title (core k) @ overdueSuffix)) prev"
  let ?txt = "overduePrefix @ t_title (core k) @ overdueSuffix"
  let ?news = "overdueNotifications pd today projs us ts"
  have one: "filter (\<lambda>c. nn_taskId c = t_id (core k)) ?news
           = [\<lparr> nn_userId = u_id leader, nn_text = ?txt, nn_taskId = t_id (core k) \<rparr>]"
    using overdue_for_task[of ts k pd e today projs us leader] a by blast
  then have "?news \<noteq> []" by auto
  then have s1: "overdueSweep pd today now1 mkId1 projs us ts prev
               = addNotification us now1 mkId1 ?news OnStatusChange prev"
    by (simp add: overdueSweep_def Let_def)
  have "length (filter (sameTuple (u_id leader) (t_id (core k)) ?txt)
                   (addNotification us now1 mkId1 ?news OnStatusChange prev)) = 1"
    using addNotification_count[OF one, of us OnStatusChange prev now1 mkId1] a by blast
  then have "length (filter (sameTuple (u_id leader) (t_id (core k)) ?txt)
                   (overdueSweep pd today now1 mkId1 projs us ts prev)) = 1"
    by (simp only: s1)
  then show "length (filter (sameTuple (u_id leader) (t_id (core k)) ?txt)
                (overdueSweep pd today now2 mkId2 projs us ts
                   (overdueSweep pd today now1 mkId1 projs us ts prev))) = 1"
    by (simp only: again)
qed

theorem overdue_sweep_dedup_witness:
  "length (filter (sameTuple ''u2'' ''t1'' (overduePrefix @ ''Task t1'' @ overdueSuffix))
      (overdueSweep ex_parseDate 1710892800000 ''2024-03-20T09:00:00.000Z'' (\<lambda>i. ''n2-'' @ digits i)
         (projects ex_db) (users ex_db) ex_tasks
         (overdueSweep ex_parseDate 1710892800000 ''2024-03-20T08:00:00.000Z'' (\<lambda>i. ''n1-'' @ digits i)
            (projects ex_db) (users ex_db) ex_tasks []))) = 1"
proof -
  define k where "k = mem_getTaskViewModel ex_db (mem_task ''t1'' ''proj-alpha'' ''2024-01-31'')"
  define k2 where "k2 = mem_getTaskViewModel ex_db (mem_task ''t2'' ''proj-beta'' ''2024-02-28'')"
  have stored: "tasks ex_db = [mem_task ''t1'' ''proj-alpha'' ''2024-01-31'',
                               mem_task ''t2'' ''proj-beta'' ''2024-02-28'']"
    by (simp add: ex_db_def)
  have ts: "ex_tasks = [k, k2]"
    by (simp add: ex_tasks_def api_getInitialData_def stored k_def k2_def)
  have ck: "core k = mem_task ''t1'' ''proj-alpha'' ''2024-01-31''"
    and ck2: "core k2 = mem_task ''t2'' ''proj-beta'' ''2024-02-28''"
    by (simp_all add: k_def k2_def mem_getTaskViewModel_def)
  have d: "distinct (map (\<lambda>t. t_id (core t)) ex_tasks)"
    by (simp add: ts ck ck2 mem_task_def)
  have kin: "k \<in> set ex_tasks" by (simp add: ts)
  have pd: "ex_parseDate (t_endDate (core k)) = Some 1706659200000"
    by (simp add: ck mem_task_def ex_parseDate_def)
  have lt: "(1706659200000 :: int) < 1710892800000" by simp
  have col: "t_columnId (core k) \<noteq> ''col-done''" by (simp add: ck mem_task_def)
  have ps: "projects ex_db =
         [\<lparr> p_id = ''proj-alpha'', p_name = ''Alpha'', p_teamId = ''team-dev'', p_budget = 50000,
            p_description = [], p_startDate = ''2024-01-01'', p_endDate = ''2024-06-30'' \<rparr>,
          \<lparr> p_id = ''proj-beta'', p_name = ''Beta'', p_teamId = ''team-mkt'', p_budget = 75000,
            p_description = [], p_startDate = ''2024-02-01'', p_endDate = ''2024-09-30'' \<rparr>]"
    and us: "users ex_db =
         [mem_user ''u1'' Super_Admin None None,
          mem_user ''u2'' Team_Leader (Some ''team-dev'') None,
          mem_user ''u3'' Employee (Some ''team-dev'') None,
          mem_user ''g1'' Guest None (Some ''proj-alpha'')]"
    by (simp_all add: ex_db_def)
  have leader: "getTeamLeaderForTask (projects ex_db) (users ex_db) k = Some ex_leader"
    by (simp add: getTeamLeaderForTask_def ck ps us mem_task_def mem_user_def ex_leader_def)
  have perm: "hasPermission (users ex_db) OnStatusChange (u_id ex_leader)"
    by (simp add: hasPermission_def us mem_user_def ex_leader_def allPreferences_def)
  have none: "\<not> list_ex (sameTuple (u_id ex_leader) (t_id (core k))
                              (overduePrefix @ t_title (core k) @ overdueSuffix)) []"
    by simp
  have names: "u_id ex_leader = ''u2'' \<and> t_id (core k) = ''t1'' \<and> t_title (core k) = ''Task t1''"
    by (simp add: ex_leader_def mem_user_def ck mem_task_def)
  have "length (filter (sameTuple (u_id ex_leader) (t_id (core k))
                                  (overduePrefix @ t_title (core k) @ overdueSuffix))
      (overdueSweep ex_parseDate 1710892800000 ''2024-03-20T09:00:00.000Z'' (\<lambda>i. ''n2-'' @ digits i)
         (projects ex_db) (users ex_db) ex_tasks
         (overdueSweep ex_parseDate 1710892800000 ''2024-03-20T08:00:00.000Z'' (\<lambda>i. ''n1-'' @ digits i)
            (projects ex_db) (users ex_db) ex_tasks []))) = 1"
    using overdue_sweep_dedup
            [of ex_parseDate 1710892800000 "''2024-03-20T09:00:00.000Z''" "\<lambda>i. ''n2-'' @ digits i"
                "projects ex_db" "users ex_db" ex_tasks "''2024-03-20T08:00:00.000Z''"
                "\<lambda>i. ''n1-'' @ digits i" "[]" k 1706659200000 ex_leader]
          d kin pd lt col leader perm none
    by blast
  then show ?thesis by (simp only: names)
qed

section \<open>The bootstrap snapshot\<close>

lemma assigned_inner:
  "list_ex (\<lambda>t. q = tk_project_id t
                 \<and> list_ex (\<lambda>ta. tk_task_id t = as_task_id ta \<and> as_user_id ta = uid)
                            (pg_task_assignees db))
           (pg_tasks db)
   = assignedIn db uid q"
  unfolding assignedIn_def list_ex_iff by metis

lemma accessibleProjectIds_set:
  "set (accessibleProjectIds db uid) =
     pj_project_id ` {p \<in> set (pg_projects db).
        assignedIn db uid (pj_project_id p) \<or> storedProjectId db uid = Some (pj_project_id p)}"
  by (simp add: accessibleProjectIds_def assigned_inner)

lemma selected_ids:
  assumes "set ids = pj_project_id ` {p \<in> set ps. c (pj_project_id p)}"
  shows "pid \<in> pj_project_id ` set (if ids \<noteq> [] then filter (\<lambda>p. pj_project_id p \<in> set ids) ps
                                     else [])
         \<longleftrightarrow> (\<exists>p\<in>set ps. pj_project_id p = pid \<and> c pid)"
proof
  assume "pid \<in> pj_project_id ` set (if ids \<noteq> [] then filter (\<lambda>p. pj_project_id p \<in> set ids) ps
                                     else [])"
  then obtain p where p: "p \<in> set ps" "pj_project_id p = pid" "pid \<in> set ids"
    by (cases "ids = []") auto
  then have "c pid" using assms by auto
  then show "\<exists>p\<in>set ps. pj_project_id p = pid \<and> c pid" using p by blast
next
  assume "\<exists>p\<in>set ps. pj_project_id p = pid \<and> c pid"
  then obtain p where p: "p \<in> set ps" "pj_project_id p = pid" "c pid" by blast
  then have in_ids: "pid \<in> set ids" using assms by force
  then have "ids \<noteq> []" by auto
  then show "pid \<in> pj_project_id ` set (if ids \<noteq> [] then filter (\<lambda>p. pj_project_id p \<in> set ids) ps
                                     else [])"
    using p in_ids by force
qed

lemma projectsFor_ids:
  "pid \<in> set (map pj_project_id (projectsFor db user)) \<longleftrightarrow> visibleProject db user pid"
proof -
  let ?c = "\<lambda>q. assignedIn db (au_id user) q \<or> storedProjectId db (au_id user) = Some q"
  note other = selected_ids[of "accessibleProjectIds db (au_id user)" "pg_projects db" ?c pid,
                            OF accessibleProjectIds_set]
  show ?thesis
  proof (cases "au_role user")
    case Super_Admin
    then show ?thesis by (auto simp: projectsFor_def visibleProject_def list_ex_iff)
  next
    case Team_Leader
    then show ?thesis by (auto simp: projectsFor_def visibleProject_def list_ex_iff)
  next
    case Employee
    then show ?thesis
      using other by (simp add: projectsFor_def visibleProject_def list_ex_iff Let_def)
  next
    case Guest
    then show ?thesis
      using other by (simp add: projectsFor_def visibleProject_def list_ex_iff Let_def)
  qed
qed

lemma view_rows:
  "map tv_row (map (\<lambda>task. bootstrap_getFullTaskViewModel task a d c) ts) = ts"
  by (induction ts) (simp_all add: bootstrap_getFullTaskViewModel_def)

lemma guarded_rows:
  assumes "succeeded (if c then Server_Error else Ok r)" and "map tv_row (bd_tasks r) = X"
  shows "taskRows (if c then Server_Error else Ok r) = X"
  using assms by (cases c) (simp_all add: succeeded_def taskRows_def)

lemma getInitialData_tasks:
  assumes "succeeded (getInitialData fault (Some user) db)"
  shows "taskRows (getInitialData fault (Some user) db) =
           filter (\<lambda>t. visibleProject db user (tk_project_id t)) (pg_tasks db)"
proof -
  let ?ids = "map pj_project_id (projectsFor db user)"
  have shape: "taskRows (getInitialData fault (Some user) db) =
                 (if ?ids \<noteq> [] then filter (\<lambda>t. tk_project_id t \<in> set ?ids) (pg_tasks db) else [])"
    using assms unfolding getInitialData_def Let_def option.case
    apply (rule guarded_rows)
    apply (simp only: BootstrapData.select_convs view_rows)
    done
  have "(if ?ids \<noteq> [] then filter (\<lambda>t. tk_project_id t \<in> set ?ids) (pg_tasks db) else [])
          = filter (\<lambda>t. tk_project_id t \<in> set ?ids) (pg_tasks db)"
    by (cases "?ids = []") simp_all
  also have "\<dots> = filter (\<lambda>t. visibleProject db user (tk_project_id t)) (pg_tasks db)"
    by (rule filter_cong[OF refl]) (simp only: projectsFor_ids)
  finally show ?thesis using shape by simp
qed

lemma throws_None: "throws None sent = False"
  by (simp add: throws_def)

lemma getInitialData_no_fault: "succeeded (getInitialData None (Some user) db)"
  unfolding getInitialData_def Let_def option.case throws_None
  by (simp only: if_False succeeded_def response.case)

lemma ex_guest_sees_all:
  "filter (\<lambda>t. visibleProject ex_pg ex_guest (tk_project_id t)) (pg_tasks ex_pg) = pg_tasks ex_pg"
proof -
  have p: "visibleProject ex_pg ex_guest ''proj-alpha''"
    by (simp add: visibleProject_def storedProjectId_def ex_guest_def ex_pg_def ex_user_def)
  have q: "visibleProject ex_pg ex_guest ''proj-beta''"
    by (simp add: visibleProject_def assignedIn_def ex_guest_def ex_pg_def ex_task_def)
  have "pg_tasks ex_pg = [ex_task ''t1'' ''proj-alpha'', ex_task ''t2'' ''proj-beta'']"
    by (simp add: ex_pg_def)
  then show ?thesis using p q by (simp add: ex_task_def)
qed

lemma ex_guest_rows: "taskRows (getInitialData None (Some ex_guest) ex_pg) = pg_tasks ex_pg"
  using getInitialData_tasks[OF getInitialData_no_fault, of ex_guest ex_pg]
  by (simp only: ex_guest_sees_all)

lemma api_getInitialData_unfiltered:
  "map core (id_tasks (api_getInitialData m)) = tasks m"
  by (simp add: api_getInitialData_def mem_getTaskViewModel_def o_def)

lemma ex_guest_scope:
  "map tk_task_id (filter (\<lambda>t. spec_visibleProject ex_pg ex_guest (tk_project_id t))
                          (pg_tasks ex_pg)) = [''t1'']"
proof -
  have p: "spec_visibleProject ex_pg ex_guest ''proj-alpha''"
    by (simp add: spec_visibleProject_def storedProjectId_def ex_guest_def ex_pg_def ex_user_def)
  have q: "\<not> spec_visibleProject ex_pg ex_guest ''proj-beta''"
    by (simp add: spec_visibleProject_def storedProjectId_def ex_guest_def ex_pg_def ex_user_def)
  have "pg_tasks ex_pg = [ex_task ''t1'' ''proj-alpha'', ex_task ''t2'' ''proj-beta'']"
    by (simp add: ex_pg_def)
  then show ?thesis using p q by (simp add: ex_task_def)
qed

text \<open>
  C1 at the failing input. The guest \<open>g1\<close> is invited to \<open>proj-alpha\<close> (the
  \<^verbatim>\<open>project_id\<close> of the user row) and has an assignee row on task \<open>t2\<close> of
  \<open>proj-beta\<close>. The visibility set of the claim for this Guest is \<open>proj-alpha\<close> alone,
  so only task \<open>t1\<close> may be returned. The ``Employee or Guest'' query of the relational
  \<^verbatim>\<open>getInitialData\<close> also keeps every project with a task assigned to the caller: the
  response holds \<open>t1\<close> and \<open>t2\<close>, and \<open>t2\<close> belongs to a project outside the set.
\<close>

theorem bootstrap_guest_sees_other_project:
  "au_role ex_guest = Guest
   \<and> storedProjectId ex_pg (au_id ex_guest) = Some ''proj-alpha''
   \<and> map tk_task_id (taskRows (getInitialData None (Some ex_guest) ex_pg)) = [''t1'', ''t2'']
   \<and> taskProjectIds (getInitialData None (Some ex_guest) ex_pg) = [''proj-alpha'', ''proj-beta'']
   \<and> \<not> spec_visibleProject ex_pg ex_guest ''proj-beta''
   \<and> map tk_task_id (filter (\<lambda>t. spec_visibleProject ex_pg ex_guest (tk_project_id t))
                            (pg_tasks ex_pg)) = [''t1'']"
proof (intro conjI)
  show "au_role ex_guest = Guest" by (simp add: ex_guest_def)
  show "storedProjectId ex_pg (au_id ex_guest) = Some ''proj-alpha''"
    by (simp add: storedProjectId_def ex_guest_def ex_pg_def ex_user_def)
  show "map tk_task_id (taskRows (getInitialData None (Some ex_guest) ex_pg)) = [''t1'', ''t2'']"
    unfolding ex_guest_rows by (simp add: ex_pg_def ex_task_def)
  show "taskProjectIds (getInitialData None (Some ex_guest) ex_pg) = [''proj-alpha'', ''proj-beta'']"
    unfolding taskProjectIds_def ex_guest_rows by (simp add: ex_pg_def ex_task_def)
  show "\<not> spec_visibleProject ex_pg ex_guest ''proj-beta''"
    by (simp add: spec_visibleProject_def storedProjectId_def ex_guest_def ex_pg_def ex_user_def)
  show "map tk_task_id (filter (\<lambda>t. spec_visibleProject ex_pg ex_guest (tk_project_id t))
                            (pg_tasks ex_pg)) = [''t1'']"
    by (rule ex_guest_scope)
qed

section \<open>Order of the comments in a task view\<close>

lemma commentsQuery_sorted:
  "sorted (map (\<lambda>r. co_timestamp (fst r)) (commentsQuery db keep))"
  by (simp add: commentsQuery_def)

lemma view_timestamps:
  "map cv_timestamp (map commentView rs) = map (\<lambda>r. co_timestamp (fst r)) rs"
  by (simp add: commentView_def)

lemma getFullTaskViewModel_sorted:
  assumes "getFullTaskViewModel db tid = Some v"
  shows "sorted (map cv_timestamp (tv_comments v))"
proof -
  have "tv_comments v = map commentView (commentsQuery db (\<lambda>t. t = tid))"
    using assms by (auto simp: getFullTaskViewModel_def split: list.splits)
  then show ?thesis by (simp only: view_timestamps commentsQuery_sorted)
qed

lemma bootstrap_view_sorted:
  assumes "sorted (map (\<lambda>r. co_timestamp (fst r)) cs)"
  shows "sorted (map cv_timestamp (tv_comments (bootstrap_getFullTaskViewModel task a d cs)))"
proof -
  have "tv_comments (bootstrap_getFullTaskViewModel task a d cs) =
          map commentView (filter (\<lambda>c. co_task_id (fst c) = tk_task_id task) cs)"
    by (simp add: bootstrap_getFullTaskViewModel_def)
  then show ?thesis
    using sorted_filter[OF assms, of "\<lambda>c. co_task_id (fst c) = tk_task_id task"]
    by (simp only: view_timestamps)
qed

lemma guarded_query_sorted:
  "sorted (map (\<lambda>r. co_timestamp (fst r)) (if c then commentsQuery db keep else []))"
  by (cases c) (simp_all add: commentsQuery_sorted)

lemma guarded_views:
  assumes "(if c then Server_Error else Ok r) = Ok d"
      and "list_all P (bd_tasks r)"
  shows "list_all P (bd_tasks d)"
  using assms by (cases c) simp_all

lemma list_all_views:
  assumes "\<And>task. P (f task)"
  shows "list_all P (map f ts)"
  using assms by (simp add: list_all_iff)

lemma getInitialData_sorted:
  assumes "getInitialData fault ru db = Ok d"
  shows "list_all (\<lambda>v. sorted (map cv_timestamp (tv_comments v))) (bd_tasks d)"
proof (cases ru)
  case None
  then show ?thesis using assms by (simp add: getInitialData_def)
next
  case (Some user)
  show ?thesis
    using assms unfolding Some getInitialData_def Let_def option.case
    apply (rule guarded_views)
    apply (simp only: BootstrapData.select_convs)
    apply (rule list_all_views)
    apply (rule bootstrap_view_sorted)
    apply (rule guarded_query_sorted)
    done
qed

text \<open>
  C8, as stated, fails on the in-memory store: in the assembled view of task \<open>t1\<close> the
  comment with the later timestamp comes first, because it was pushed first.
\<close>

theorem comments_order_counterexample:
  "map cm_timestamp (comments (mem_getTaskViewModel ex_db (mem_task ''t1'' ''proj-alpha'' ''2024-01-31'')))
     = [''2024-01-02T10:00:00.000Z'', ''2024-01-01T10:00:00.000Z'']
   \<and> \<not> sorted [''2024-01-02T10:00:00.000Z'', ''2024-01-01T10:00:00.000Z'' :: string]"
proof (intro conjI)
  show "map cm_timestamp
          (comments (mem_getTaskViewModel ex_db (mem_task ''t1'' ''proj-alpha'' ''2024-01-31'')))
        = [''2024-01-02T10:00:00.000Z'', ''2024-01-01T10:00:00.000Z'']"
    by (simp add: mem_getTaskViewModel_def ex_db_def mem_task_def o_def)
  show "\<not> sorted [''2024-01-02T10:00:00.000Z'', ''2024-01-01T10:00:00.000Z'' :: string]"
    by simp
qed

text \<open>
  C8, amended. In the task views assembled from the relational store, by the single-task
  assembly and by the bootstrap assembly, the comments are sorted by timestamp in
  ascending order whatever the order of the comment rows. The in-memory assembly does not
  sort: the comments of a view are the task's stored comments in insertion order.
\<close>

theorem relational_comments_sorted:
  "(getFullTaskViewModel db tid = Some v \<longrightarrow> sorted (map cv_timestamp (tv_comments v)))
   \<and> (getInitialData fault ru db = Ok d
        \<longrightarrow> list_all (\<lambda>v. sorted (map cv_timestamp (tv_comments v))) (bd_tasks d))
   \<and> map cm_id (comments (mem_getTaskViewModel m t))
       = map c_id (filter (\<lambda>c. c_taskId c = t_id t) (db_comments m))
   \<and> map cm_timestamp (comments (mem_getTaskViewModel m t))
       = map c_timestamp (filter (\<lambda>c. c_taskId c = t_id t) (db_comments m))"
proof (intro conjI impI)
  assume "getFullTaskViewModel db tid = Some v"
  then show "sorted (map cv_timestamp (tv_comments v))" by (rule getFullTaskViewModel_sorted)
next
  assume "getInitialData fault ru db = Ok d"
  then show "list_all (\<lambda>v. sorted (map cv_timestamp (tv_comments v))) (bd_tasks d)"
    by (rule getInitialData_sorted)
next
  show "map cm_id (comments (mem_getTaskViewModel m t))
          = map c_id (filter (\<lambda>c. c_taskId c = t_id t) (db_comments m))"
    by (simp add: mem_getTaskViewModel_def o_def)
  show "map cm_timestamp (comments (mem_getTaskViewModel m t))
          = map c_timestamp (filter (\<lambda>c. c_taskId c = t_id t) (db_comments m))"
    by (simp add: mem_getTaskViewModel_def o_def)
qed

lemma ex_view_t1:
  "map_option (\<lambda>v. map cv_id (tv_comments v)) (getFullTaskViewModel ex_pg ''t1'')
     = Some [''c2'', ''c1'']"
  by (simp add: getFullTaskViewModel_def commentsQuery_def commentView_def ex_pg_def ex_user_def
                ex_task_def o_def)

theorem relational_comments_sorted_witness:
  "map_option (\<lambda>v. map cv_id (tv_comments v)) (getFullTaskViewModel ex_pg ''t1'')
     = Some [''c2'', ''c1'']
   \<and> map co_comment_id (pg_comments ex_pg) = [''c1'', ''c2'']
   \<and> sorted (map cv_timestamp (tv_comments (the (getFullTaskViewModel ex_pg ''t1''))))"
proof -
  obtain v where v: "getFullTaskViewModel ex_pg ''t1'' = Some v"
    using ex_view_t1 by (cases "getFullTaskViewModel ex_pg ''t1''") auto
  have "sorted (map cv_timestamp (tv_comments v))"
    using relational_comments_sorted[of ex_pg "''t1''" v] v by blast
  then have "sorted (map cv_timestamp (tv_comments (the (getFullTaskViewModel ex_pg ''t1''))))"
    by (simp add: v)
  moreover have "map co_comment_id (pg_comments ex_pg) = [''c1'', ''c2'']"
    by (simp add: ex_pg_def)
  ultimately show ?thesis using ex_view_t1 by simp
qed

section \<open>Financial entries\<close>

lemma addFinancialEntry_income_restricted:
  assumes "fb_type body = Some ''Income''" and "map_option au_role ru \<noteq> Some Super_Admin"
  shows "fst (addFinancialEntry fault newId ru body db) = db
         \<and> (snd (addFinancialEntry fault newId ru body db) = Forbidden
            \<or> snd (addFinancialEntry fault newId ru body db) = Bad_Request)"
  using assms
  by (auto simp: addFinancialEntry_def Let_def split: option.splits)

text \<open>
  C2 at the failing input. The relational controller refuses an Income entry from anyone
  but a Super Admin (the lemma above). The in-memory \<^verbatim>\<open>api.addFinancialTransaction\<close> tests the
  role only: called by the Team Leader \<open>u2\<close> with an Income entry it returns the entry,
  not an error, and the entry is stored.
\<close>

theorem teamLeader_adds_income:
  "u_role ex_leader = Team_Leader \<and> fd_type ex_income = Income
   \<and> financial_entries ex_db = []
   \<and> map f_type (financial_entries
                    (fst (api_addFinancialTransaction 1700000000000 ex_income ex_leader ex_db)))
       = [Income]
   \<and> map_sum id f_type (snd (api_addFinancialTransaction 1700000000000 ex_income ex_leader ex_db))
       = Inr Income"
  by (simp add: api_addFinancialTransaction_def ex_income_def ex_leader_def mem_user_def
                ex_db_def Let_def)

section \<open>Deleting a team\<close>

lemma deleteTeam_success:
  assumes "succeeded (snd (deleteTeam fault tid db))"
  shows "fst (deleteTeam fault tid db) =
           db \<lparr> pg_users := map (\<lambda>u. if us_team_id u = Some tid then u \<lparr> us_team_id := None \<rparr> else u)
                                (pg_users db),
                pg_teams := filter (\<lambda>t. te_team_id t \<noteq> tid) (pg_teams db) \<rparr>"
  using assms by (simp add: deleteTeam_def Let_def succeeded_def split: if_splits)

lemma deleteTeam_failure:
  assumes "\<not> succeeded (snd (deleteTeam fault tid db))"
  shows "fst (deleteTeam fault tid db) = db"
  using assms by (simp add: deleteTeam_def Let_def succeeded_def split: if_splits)

lemma getInitialData_teams:
  assumes "getInitialData f ru db = Ok d"
  shows "bd_teams d = map teamPublic (pg_teams db)"
proof (cases ru)
  case None
  then show ?thesis using assms by (simp add: getInitialData_def)
next
  case (Some user)
  then show ?thesis
    using assms by (auto simp: getInitialData_def Let_def split: if_splits)
qed

lemma no_member_after_clear:
  "\<not> list_ex (\<lambda>u. us_team_id u = Some tid)
        (map (\<lambda>u. if us_team_id u = Some tid then u \<lparr> us_team_id := None \<rparr> else u) us)"
  by (induction us) auto

lemma mem_no_member_after_clear:
  "\<not> list_ex (\<lambda>u. u_teamId u = Some tid)
        (map (\<lambda>u. if u_teamId u = Some tid then u \<lparr> u_teamId := None \<rparr> else u) us)"
  by (induction us) auto

lemma api_deleteTeam_success:
  assumes "snd (api_deleteTeam tid cu m) = Inr r"
  shows "fst (api_deleteTeam tid cu m) =
           m \<lparr> teams := filter (\<lambda>t. tm_id t \<noteq> tid) (teams m),
               users := map (\<lambda>u. if u_teamId u = Some tid then u \<lparr> u_teamId := None \<rparr> else u)
                            (users m) \<rparr>"
  using assms by (simp add: api_deleteTeam_def Let_def split: if_splits)

lemma api_deleteTeam_failure:
  assumes "snd (api_deleteTeam tid cu m) = Inl e"
  shows "fst (api_deleteTeam tid cu m) = m"
  using assms by (simp add: api_deleteTeam_def Let_def split: if_splits)

text \<open>
  C4. A successful \<^verbatim>\<open>deleteTeam\<close> leaves no user with the deleted team: every user row that
  carried it, the leader's among them, has its team cleared and is otherwise unchanged, the
  other rows are untouched; no team row with the identifier remains, so no later
  bootstrap lists the team. When a statement of the transaction throws, the response is an
  error and the store is the one before the call: both effects or neither. The in-memory
  API does the same and fails only before its first write.
\<close>

theorem deleteTeam_clears_members_atomically:
  "(succeeded (snd (deleteTeam fault tid db)) \<longrightarrow>
      pg_users (fst (deleteTeam fault tid db)) =
        map (\<lambda>u. if us_team_id u = Some tid then u \<lparr> us_team_id := None \<rparr> else u) (pg_users db)
      \<and> \<not> list_ex (\<lambda>u. us_team_id u = Some tid) (pg_users (fst (deleteTeam fault tid db)))
      \<and> \<not> list_ex (\<lambda>t. te_team_id t = tid) (pg_teams (fst (deleteTeam fault tid db)))
      \<and> (getInitialData f ru (fst (deleteTeam fault tid db)) = Ok d
           \<longrightarrow> \<not> list_ex (\<lambda>t. tp_id t = tid) (bd_teams d)))
   \<and> (\<not> succeeded (snd (deleteTeam fault tid db)) \<longrightarrow> fst (deleteTeam fault tid db) = db)
   \<and> (snd (api_deleteTeam tid cu m) = Inr r \<longrightarrow>
      users (fst (api_deleteTeam tid cu m)) =
        map (\<lambda>u. if u_teamId u = Some tid then u \<lparr> u_teamId := None \<rparr> else u) (users m)
      \<and> \<not> list_ex (\<lambda>u. u_teamId u = Some tid) (users (fst (api_deleteTeam tid cu m)))
      \<and> \<not> list_ex (\<lambda>t. tm_id t = tid)
              (id_teams (api_getInitialData (fst (api_deleteTeam tid cu m)))))
   \<and> (snd (api_deleteTeam tid cu m) = Inl e \<longrightarrow> fst (api_deleteTeam tid cu m) = m)"
proof (intro conjI impI)
  assume s: "succeeded (snd (deleteTeam fault tid db))"
  note eq = deleteTeam_success[OF s]
  show "pg_users (fst (deleteTeam fault tid db)) =
        map (\<lambda>u. if us_team_id u = Some tid then u \<lparr> us_team_id := None \<rparr> else u) (pg_users db)"
    by (simp add: eq)
  show "\<not> list_ex (\<lambda>u. us_team_id u = Some tid) (pg_users (fst (deleteTeam fault tid db)))"
    using no_member_after_clear[of tid "pg_users db"] by (simp add: eq)
  show nt: "\<not> list_ex (\<lambda>t. te_team_id t = tid) (pg_teams (fst (deleteTeam fault tid db)))"
    by (simp add: eq list_ex_iff)
  assume b: "getInitialData f ru (fst (deleteTeam fault tid db)) = Ok d"
  have "bd_teams d = map teamPublic (pg_teams (fst (deleteTeam fault tid db)))"
    using getInitialData_teams[OF b] .
  then show "\<not> list_ex (\<lambda>t. tp_id t = tid) (bd_teams d)"
    using nt by (simp add: list_ex_iff teamPublic_def)
next
  assume "\<not> succeeded (snd (deleteTeam fault tid db))"
  then show "fst (deleteTeam fault tid db) = db" by (rule deleteTeam_failure)
next
  assume s: "snd (api_deleteTeam tid cu m) = Inr r"
  note eq = api_deleteTeam_success[OF s]
  show "users (fst (api_deleteTeam tid cu m)) =
        map (\<lambda>u. if u_teamId u = Some tid then u \<lparr> u_teamId := None \<rparr> else u) (users m)"
    by (simp add: eq)
  show "\<not> list_ex (\<lambda>u. u_teamId u = Some tid) (users (fst (api_deleteTeam tid cu m)))"
    using mem_no_member_after_clear[of tid "users m"] by (simp add: eq)
  show "\<not> list_ex (\<lambda>t. tm_id t = tid)
              (id_teams (api_getInitialData (fst (api_deleteTeam tid cu m))))"
    by (simp add: eq api_getInitialData_def list_ex_iff)
next
  assume "snd (api_deleteTeam tid cu m) = Inl e"
  then show "fst (api_deleteTeam tid cu m) = m" by (rule api_deleteTeam_failure)
qed

lemma deleteTeam_no_fault: "succeeded (snd (deleteTeam None tid db))"
  by (simp add: deleteTeam_def Let_def succeeded_def)

theorem deleteTeam_clears_members_atomically_witness:
  "map us_team_id (pg_users (fst (deleteTeam None ''team-dev'' ex_pg)))
     = [None, None, None, None, None]
   \<and> map us_team_id (pg_users ex_pg) = [None, Some ''team-dev'', Some ''team-dev'', None, None]
   \<and> fst (deleteTeam (Some (DELETE ''teams'')) ''team-dev'' ex_pg) = ex_pg
   \<and> map u_teamId (users (fst (api_deleteTeam ''team-dev'' ex_admin ex_db)))
     = [None, None, None, None]
   \<and> fst (api_deleteTeam ''team-dev'' ex_leader ex_db) = ex_db"
proof -
  have r1: "succeeded (snd (deleteTeam None ''team-dev'' ex_pg))"
    by (rule deleteTeam_no_fault)
  have r2: "\<not> succeeded (snd (deleteTeam (Some (DELETE ''teams'')) ''team-dev'' ex_pg))"
    by (simp add: deleteTeam_def Let_def succeeded_def)
  have m1: "snd (api_deleteTeam ''team-dev'' ex_admin ex_db) =
              Inr (projr (snd (api_deleteTeam ''team-dev'' ex_admin ex_db)))"
    by (simp add: api_deleteTeam_def ex_admin_def mem_user_def Let_def)
  have m2: "snd (api_deleteTeam ''team-dev'' ex_leader ex_db) = Inl Unauthorized"
    by (simp add: api_deleteTeam_def ex_leader_def mem_user_def Let_def)
  have before: "map us_team_id (pg_users ex_pg)
                  = [None, Some ''team-dev'', Some ''team-dev'', None, None]
                \<and> map u_teamId (users ex_db) = [None, Some ''team-dev'', Some ''team-dev'', None]"
    by (simp add: ex_pg_def ex_user_def ex_db_def mem_user_def)
  have a: "pg_users (fst (deleteTeam None ''team-dev'' ex_pg)) =
        map (\<lambda>u. if us_team_id u = Some ''team-dev'' then u \<lparr> us_team_id := None \<rparr> else u)
            (pg_users ex_pg)"
    using deleteTeam_clears_members_atomically[of None "''team-dev''" ex_pg] r1 by blast
  have b: "fst (deleteTeam (Some (DELETE ''teams'')) ''team-dev'' ex_pg) = ex_pg"
    using deleteTeam_clears_members_atomically[of "Some (DELETE ''teams'')" "''team-dev''" ex_pg]
          r2 by blast
  have c: "users (fst (api_deleteTeam ''team-dev'' ex_admin ex_db)) =
        map (\<lambda>u. if u_teamId u = Some ''team-dev'' then u \<lparr> u_teamId := None \<rparr> else u)
            (users ex_db)"
    using deleteTeam_clears_members_atomically
            [of _ "''team-dev''" _ _ _ _ ex_admin ex_db
                "projr (snd (api_deleteTeam ''team-dev'' ex_admin ex_db))"] m1 by blast
  have d: "fst (api_deleteTeam ''team-dev'' ex_leader ex_db) = ex_db"
    using deleteTeam_clears_members_atomically
            [of _ "''team-dev''" _ _ _ _ ex_leader ex_db _ Unauthorized] m2 by blast
  have a': "map us_team_id (pg_users (fst (deleteTeam None ''team-dev'' ex_pg)))
              = [None, None, None, None, None]"
    unfolding a by (simp add: ex_pg_def ex_user_def)
  have c': "map u_teamId (users (fst (api_deleteTeam ''team-dev'' ex_admin ex_db)))
              = [None, None, None, None]"
    unfolding c by (simp add: ex_db_def mem_user_def)
  show ?thesis using a' before b c' d by simp
qed

section \<open>Adding members to a team\<close>

text \<open>
  C10. In the relational \<^verbatim>\<open>addMembersToTeam\<close>, with a non-empty list of user identifiers,
  an existing team, a caller who passes the leader check and no database failure, the
  response is 200 whatever the users' current teams. A user row that already has a team
  is left as it is, requested or not; a requested row without a team gets the target
  team; and the returned list has one entry for each row that was changed and none for
  any other, so a requested user who already belongs to a team is omitted without an
  error.
\<close>

theorem addMembersToTeam_skips_assigned:
  assumes "ids \<noteq> []"
      and "filter (\<lambda>t. te_team_id t = tid) (pg_teams db) = team # rest"
      and "\<forall>r. ru = Some r \<and> au_role r = Team_Leader \<longrightarrow> te_team_leader_id team = Some (au_id r)"
      and "fault \<noteq> Some (SELECT ''teams'')" and "fault \<noteq> Some (UPDATE ''users'')"
  shows "\<exists>db' rows. addMembersToTeam fault ru tid (Some ids) db = (db', Ok rows)
           \<and> length (pg_users db') = length (pg_users db)
           \<and> (\<forall>i < length (pg_users db).
                 pg_users db' ! i =
                   (if us_user_id (pg_users db ! i) \<in> set ids \<and> us_team_id (pg_users db ! i) = None
                    then (pg_users db ! i) \<lparr> us_team_id := Some tid \<rparr>
                    else pg_users db ! i))
           \<and> (\<forall>i < length (pg_users db).
                 us_team_id (pg_users db ! i) \<noteq> None \<longrightarrow> pg_users db' ! i = pg_users db ! i)
           \<and> rows = map (\<lambda>u. userSummary (u \<lparr> us_team_id := Some tid \<rparr>))
                        (filter (\<lambda>u. us_user_id u \<in> set ids \<and> us_team_id u = None) (pg_users db))
           \<and> (\<forall>r \<in> set rows. \<exists>u \<in> set (pg_users db).
                 sm_id r = us_user_id u \<and> us_team_id u = None \<and> us_user_id u \<in> set ids
                 \<and> sm_teamId r = Some tid)"
proof -
  let ?hit = "\<lambda>u. us_user_id u \<in> set ids \<and> us_team_id u = None"
  let ?db' = "db \<lparr> pg_users := map (\<lambda>u. if ?hit u then u \<lparr> us_team_id := Some tid \<rparr> else u)
                                   (pg_users db) \<rparr>"
  let ?rows = "map (\<lambda>u. userSummary (u \<lparr> us_team_id := Some tid \<rparr>)) (filter ?hit (pg_users db))"
  have auth: "\<not> (case ru of None \<Rightarrow> False
                  | Some r \<Rightarrow> au_role r = Team_Leader \<and> te_team_leader_id team \<noteq> Some (au_id r))"
    using assms(3) by (cases ru) auto
  have run: "addMembersToTeam fault ru tid (Some ids) db = (?db', Ok ?rows)"
    using assms(1,2,4,5) auth by (simp add: addMembersToTeam_def Let_def)
  have "\<forall>r \<in> set ?rows. \<exists>u \<in> set (pg_users db).
                 sm_id r = us_user_id u \<and> us_team_id u = None \<and> us_user_id u \<in> set ids
                 \<and> sm_teamId r = Some tid"
    by (auto simp: userSummary_def)
  then show ?thesis using run by simp
qed

theorem addMembersToTeam_skips_assigned_witness:
  "addMembersToTeam None None ''team-mkt'' (Some [''u3'', ''u4'']) ex_pg =
     (ex_pg \<lparr> pg_users :=
         [ex_user ''u1'' ''Alex'' Super_Admin None None,
          ex_user ''u2'' ''Jane'' Team_Leader (Some ''team-dev'') None,
          ex_user ''u3'' ''Sam'' Employee (Some ''team-dev'') None,
          ex_user ''u4'' ''Maria'' Employee (Some ''team-mkt'') None,
          ex_user ''g1'' ''Gil'' Guest None (Some ''proj-alpha'')] \<rparr>,
      Ok [\<lparr> sm_id = ''u4'', sm_name = ''Maria'', sm_email = ''u4@example.com'',
            sm_role = Employee, sm_teamId = Some ''team-mkt'' \<rparr>])"
proof -
  have t: "filter (\<lambda>t. te_team_id t = ''team-mkt'') (pg_teams ex_pg) =
             \<lparr> te_team_id = ''team-mkt'', te_team_name = ''Mkt'', te_team_leader_id = None \<rparr> # []"
    by (simp add: ex_pg_def)
  have i: "[''u3'', ''u4''] \<noteq> ([] :: string list)" by simp
  obtain db' rows where
    run: "addMembersToTeam None None ''team-mkt'' (Some [''u3'', ''u4'']) ex_pg = (db', Ok rows)"
    using addMembersToTeam_skips_assigned[OF i t, of None None] by auto
  have "addMembersToTeam None None ''team-mkt'' (Some [''u3'', ''u4'']) ex_pg =
     (ex_pg \<lparr> pg_users :=
         [ex_user ''u1'' ''Alex'' Super_Admin None None,
          ex_user ''u2'' ''Jane'' Team_Leader (Some ''team-dev'') None,
          ex_user ''u3'' ''Sam'' Employee (Some ''team-dev'') None,
          ex_user ''u4'' ''Maria'' Employee (Some ''team-mkt'') None,
          ex_user ''g1'' ''Gil'' Guest None (Some ''proj-alpha'')] \<rparr>,
      Ok [\<lparr> sm_id = ''u4'', sm_name = ''Maria'', sm_email = ''u4@example.com'',
            sm_role = Employee, sm_teamId = Some ''team-mkt'' \<rparr>])"
    using run by (simp add: addMembersToTeam_def ex_pg_def ex_user_def userSummary_def Let_def)
  then show ?thesis .
qed

section \<open>Deleting a user\<close>

lemma findIndex_Some:
  "findIndex P xs = Some i \<Longrightarrow> i < length xs \<and> P (xs ! i)"
proof (induction xs arbitrary: i)
  case Nil
  then show ?case by simp
next
  case (Cons x xs)
  then show ?case by (cases "P x") (auto simp: nth_Cons')
qed

lemma deleteUser_soft:
  assumes "filter (\<lambda>u. us_user_id u = uid) (pg_users db) = row # rest"
      and "us_role row \<noteq> Guest"
      and "fault \<noteq> Some (SELECT ''users'')" and "fault \<noteq> Some (UPDATE ''users'')"
  shows "deleteUser fault uid db =
           (db \<lparr> pg_users := map (\<lambda>u. if us_user_id u = uid then u \<lparr> us_disabled := True \<rparr> else u)
                                 (pg_users db) \<rparr>,
            Ok (userRecord (row \<lparr> us_disabled := True \<rparr>)))"
  using assms by (simp add: deleteUser_def Let_def)

lemma deleteUser_hard:
  assumes "filter (\<lambda>u. us_user_id u = uid) (pg_users db) = row # rest"
      and "us_role row = Guest"
      and "fault \<noteq> Some (SELECT ''users'')" and "fault \<noteq> Some (DELETE ''users'')"
  shows "deleteUser fault uid db =
           (db \<lparr> pg_users := filter (\<lambda>u. us_user_id u \<noteq> uid) (pg_users db) \<rparr>, No_Content)"
  using assms by (simp add: deleteUser_def Let_def)

lemma api_deleteUser_soft:
  assumes "u_role cu = Super_Admin" and "findIndex (\<lambda>u. u_id u = uid) (users m) = Some i"
  shows "api_deleteUser uid cu m =
           (m \<lparr> users := (users m)[i := (users m ! i) \<lparr> u_disabled := Some True \<rparr>] \<rparr>,
            Inr ((users m ! i) \<lparr> u_disabled := Some True \<rparr>))"
  using assms by (simp add: api_deleteUser_def Let_def)

lemma ids_after_disable:
  assumes "i < length us" and "u_id (us ! i) = uid"
  shows "map u_id (us[i := (us ! i) \<lparr> u_disabled := Some True \<rparr>]) = map u_id us"
  using assms by (simp add: map_update list_update_same_conv)

text \<open>
  C5, as stated, fails on the in-memory store: \<^verbatim>\<open>api.deleteUser\<close>, called by a Super Admin
  for the guest \<open>g1\<close>, keeps the guest's row and marks it disabled.
\<close>

theorem deleteUser_guest_counterexample:
  "list_ex (\<lambda>u. u_id u = ''g1'' \<and> u_role u = Guest \<and> u_disabled u = Some True)
           (users (fst (api_deleteUser ''g1'' ex_admin ex_db)))
   \<and> length (users (fst (api_deleteUser ''g1'' ex_admin ex_db))) = length (users ex_db)"
proof -
  have a: "u_role ex_admin = Super_Admin" by (simp add: ex_admin_def mem_user_def)
  have i: "findIndex (\<lambda>u. u_id u = ''g1'') (users ex_db) = Some 3"
    by (simp add: ex_db_def mem_user_def)
  show ?thesis
    unfolding api_deleteUser_soft[OF a i] by (simp add: ex_db_def mem_user_def)
qed

text \<open>
  C5, amended. In the relational controller \<^verbatim>\<open>deleteUser\<close> is a soft delete for every user
  whose role is not Guest (each row with the identifier gets \<open>disabled = true\<close>, nothing
  else changes, no row is added or removed) and a hard delete for a Guest (no row with
  the identifier remains, the other rows stay). In the in-memory store \<^verbatim>\<open>api.deleteUser\<close>
  is a soft delete whatever the role: the row stays, with \<open>disabled = true\<close> and every
  other field unchanged; a guest's row is removed there by \<^verbatim>\<open>api.revokeGuest\<close>.
\<close>

theorem deleteUser_soft_and_hard:
  "(filter (\<lambda>u. us_user_id u = uid) (pg_users db) = row # rest
      \<and> fault \<noteq> Some (SELECT ''users'') \<and> fault \<noteq> Some (UPDATE ''users'')
      \<and> fault \<noteq> Some (DELETE ''users'')
    \<longrightarrow> (us_role row \<noteq> Guest \<longrightarrow>
            pg_users (fst (deleteUser fault uid db)) =
              map (\<lambda>u. if us_user_id u = uid then u \<lparr> us_disabled := True \<rparr> else u) (pg_users db)
            \<and> snd (deleteUser fault uid db) = Ok (userRecord (row \<lparr> us_disabled := True \<rparr>)))
        \<and> (us_role row = Guest \<longrightarrow>
            pg_users (fst (deleteUser fault uid db)) =
              filter (\<lambda>u. us_user_id u \<noteq> uid) (pg_users db)
            \<and> \<not> list_ex (\<lambda>u. us_user_id u = uid) (pg_users (fst (deleteUser fault uid db)))
            \<and> snd (deleteUser fault uid db) = No_Content))
   \<and> (u_role cu = Super_Admin \<and> findIndex (\<lambda>u. u_id u = uid') (users m) = Some i
    \<longrightarrow> users (fst (api_deleteUser uid' cu m)) =
            (users m)[i := (users m ! i) \<lparr> u_disabled := Some True \<rparr>]
        \<and> map u_id (users (fst (api_deleteUser uid' cu m))) = map u_id (users m)
        \<and> snd (api_deleteUser uid' cu m) = Inr ((users m ! i) \<lparr> u_disabled := Some True \<rparr>))
   \<and> (u_role cu = Super_Admin
    \<longrightarrow> users (fst (api_revokeGuest gid cu m)) = filter (\<lambda>u. u_id u \<noteq> gid) (users m))"
proof (intro conjI impI)
  assume a: "filter (\<lambda>u. us_user_id u = uid) (pg_users db) = row # rest
      \<and> fault \<noteq> Some (SELECT ''users'') \<and> fault \<noteq> Some (UPDATE ''users'')
      \<and> fault \<noteq> Some (DELETE ''users'')"
  {
    assume r: "us_role row \<noteq> Guest"
    have eq: "deleteUser fault uid db =
           (db \<lparr> pg_users := map (\<lambda>u. if us_user_id u = uid then u \<lparr> us_disabled := True \<rparr> else u)
                                 (pg_users db) \<rparr>,
            Ok (userRecord (row \<lparr> us_disabled := True \<rparr>)))"
      using deleteUser_soft[of uid db row rest fault] a r by blast
    show "pg_users (fst (deleteUser fault uid db)) =
              map (\<lambda>u. if us_user_id u = uid then u \<lparr> us_disabled := True \<rparr> else u) (pg_users db)"
      by (simp add: eq)
    show "snd (deleteUser fault uid db) = Ok (userRecord (row \<lparr> us_disabled := True \<rparr>))"
      by (simp add: eq)
  }
  {
    assume r: "us_role row = Guest"
    have eq: "deleteUser fault uid db =
           (db \<lparr> pg_users := filter (\<lambda>u. us_user_id u \<noteq> uid) (pg_users db) \<rparr>, No_Content)"
      using deleteUser_hard[of uid db row rest fault] a r by blast
    show "pg_users (fst (deleteUser fault uid db)) =
              filter (\<lambda>u. us_user_id u \<noteq> uid) (pg_users db)"
      by (simp add: eq)
    show "\<not> list_ex (\<lambda>u. us_user_id u = uid) (pg_users (fst (deleteUser fault uid db)))"
      by (simp add: eq list_ex_iff)
    show "snd (deleteUser fault uid db) = No_Content"
      by (simp add: eq)
  }
next
  assume a: "u_role cu = Super_Admin \<and> findIndex (\<lambda>u. u_id u = uid') (users m) = Some i"
  then have eq: "api_deleteUser uid' cu m =
           (m \<lparr> users := (users m)[i := (users m ! i) \<lparr> u_disabled := Some True \<rparr>] \<rparr>,
            Inr ((users m ! i) \<lparr> u_disabled := Some True \<rparr>))"
    using api_deleteUser_soft[of cu uid' m i] by blast
  have idx: "i < length (users m) \<and> u_id (users m ! i) = uid'"
    using findIndex_Some[of "\<lambda>u. u_id u = uid'" "users m" i] a by blast
  show "users (fst (api_deleteUser uid' cu m)) =
            (users m)[i := (users m ! i) \<lparr> u_disabled := Some True \<rparr>]"
    by (simp add: eq)
  show "map u_id (users (fst (api_deleteUser uid' cu m))) = map u_id (users m)"
    using ids_after_disable[of i "users m" uid'] idx by (simp add: eq)
  show "snd (api_deleteUser uid' cu m) = Inr ((users m ! i) \<lparr> u_disabled := Some True \<rparr>)"
    by (simp add: eq)
next
  assume "u_role cu = Super_Admin"
  then show "users (fst (api_revokeGuest gid cu m)) = filter (\<lambda>u. u_id u \<noteq> gid) (users m)"
    by (simp add: api_revokeGuest_def)
qed

theorem deleteUser_soft_and_hard_witness:
  "map us_user_id (pg_users (fst (deleteUser None ''g1'' ex_pg))) = [''u1'', ''u2'', ''u3'', ''u4'']
   \<and> map us_disabled (pg_users (fst (deleteUser None ''u3'' ex_pg)))
       = [False, False, True, False, False]
   \<and> map u_id (users (fst (api_deleteUser ''g1'' ex_admin ex_db))) = [''u1'', ''u2'', ''u3'', ''g1'']
   \<and> map u_id (users (fst (api_revokeGuest ''g1'' ex_admin ex_db))) = [''u1'', ''u2'', ''u3'']"
proof -
  have g: "filter (\<lambda>u. us_user_id u = ''g1'') (pg_users ex_pg) =
             ex_user ''g1'' ''Gil'' Guest None (Some ''proj-alpha'') # []"
    by (simp add: ex_pg_def ex_user_def)
  have e: "filter (\<lambda>u. us_user_id u = ''u3'') (pg_users ex_pg) =
             ex_user ''u3'' ''Sam'' Employee (Some ''team-dev'') None # []"
    by (simp add: ex_pg_def ex_user_def)
  have rg: "us_role (ex_user ''g1'' ''Gil'' Guest None (Some ''proj-alpha'')) = Guest"
    and re: "us_role (ex_user ''u3'' ''Sam'' Employee (Some ''team-dev'') None) \<noteq> Guest"
    by (simp_all add: ex_user_def)
  have a: "u_role ex_admin = Super_Admin" by (simp add: ex_admin_def mem_user_def)
  have i: "findIndex (\<lambda>u. u_id u = ''g1'') (users ex_db) = Some 3"
    by (simp add: ex_db_def mem_user_def)
  have hard: "pg_users (fst (deleteUser None ''g1'' ex_pg)) =
                filter (\<lambda>u. us_user_id u \<noteq> ''g1'') (pg_users ex_pg)"
    using deleteUser_soft_and_hard[of "''g1''" ex_pg _ "[]" None] g rg by blast
  have soft: "pg_users (fst (deleteUser None ''u3'' ex_pg)) =
                map (\<lambda>u. if us_user_id u = ''u3'' then u \<lparr> us_disabled := True \<rparr> else u)
                    (pg_users ex_pg)"
    using deleteUser_soft_and_hard[of "''u3''" ex_pg _ "[]" None] e re by blast
  have mem: "map u_id (users (fst (api_deleteUser ''g1'' ex_admin ex_db))) = map u_id (users ex_db)"
    using deleteUser_soft_and_hard[of _ _ _ _ _ ex_admin "''g1''" ex_db 3] a i by blast
  have rev: "users (fst (api_revokeGuest ''g1'' ex_admin ex_db)) =
               filter (\<lambda>u. u_id u \<noteq> ''g1'') (users ex_db)"
    using deleteUser_soft_and_hard[of _ _ _ _ _ ex_admin _ ex_db _ "''g1''"] a by blast
  have 1: "map us_user_id (pg_users (fst (deleteUser None ''g1'' ex_pg)))
             = [''u1'', ''u2'', ''u3'', ''u4'']"
    unfolding hard by (simp add: ex_pg_def ex_user_def)
  have 2: "map us_disabled (pg_users (fst (deleteUser None ''u3'' ex_pg)))
             = [False, False, True, False, False]"
    unfolding soft by (simp add: ex_pg_def ex_user_def)
  have 3: "map u_id (users (fst (api_deleteUser ''g1'' ex_admin ex_db)))
             = [''u1'', ''u2'', ''u3'', ''g1'']"
    unfolding mem by (simp add: ex_db_def mem_user_def)
  have 4: "map u_id (users (fst (api_revokeGuest ''g1'' ex_admin ex_db))) = [''u1'', ''u2'', ''u3'']"
    unfolding rev by (simp add: ex_db_def mem_user_def)
  show ?thesis using 1 2 3 4 by simp
qed

end
